theory Spec2Isabelle
  imports Complex_Main "HOL-Library.Char_ord" "HOL-Library.List_Lexorder"
    "HOL-Library.Multiset"
begin

section \<open>Errors\<close>

text \<open>
  The exceptions the two modules raise.  \<open>RP2TypeError\<close> and \<open>RP2ValueError\<close> are
  the user-facing errors of \<^verbatim>\<open>rp2_error\<close>; \<open>NotImplementedError\<close> and
  \<open>Exception\<close> are Python built-ins.  The verifier raises a plain \<open>Exception\<close>
  with one of four messages, kept here as the \<open>incongruence\<close> it reports.
  \<open>DecimalError\<close> stands for the arithmetic signal of a division by zero on decimals,
  and \<open>OtherError\<close> for whatever a collaborator outside the two modules raises.
\<close>

datatype incongruence =
  CryptoTaxableAmount | UsdTaxableAmount | CostBasis | GainLossTotal

datatype error =
  RP2TypeError
  | RP2ValueError
  | NotImplementedError
  | Exception incongruence
  | DecimalError
  | OtherError string

section \<open>configuration.py\<close>

datatype AccountingMethod = FIFO | LIFO

text \<open>
  Python checks types at run time, so the arguments of the constructor are dynamic
  values: only the shapes the checks of \<^verbatim>\<open>Configuration.__init__\<close> tell apart.
\<close>

datatype py_value =
  PyNone
  | PyStr string
  | PyInt int
  | PyAccountingMethod AccountingMethod

text \<open>Truthiness of a value, as \<^verbatim>\<open>if up_to_year\<close> tests it.\<close>

fun truthy :: "py_value \<Rightarrow> bool" where
  "truthy PyNone = False"
| "truthy (PyStr s) = (s \<noteq> [])"
| "truthy (PyInt i) = (i \<noteq> 0)"
| "truthy (PyAccountingMethod m) = True"

fun type_check_parameter_name :: "py_value \<Rightarrow> error + string" where
  "type_check_parameter_name (PyStr name) = Inr name"
| "type_check_parameter_name v = Inl RP2TypeError"

fun type_check_string :: "py_value \<Rightarrow> py_value \<Rightarrow> error + string" where
  "type_check_string name v =
     (case type_check_parameter_name name of
        Inl e \<Rightarrow> Inl e
      | Inr n \<Rightarrow> (case v of PyStr s \<Rightarrow> Inr s | _ \<Rightarrow> Inl RP2TypeError))"

fun type_check_int :: "py_value \<Rightarrow> py_value \<Rightarrow> error + int" where
  "type_check_int name v =
     (case type_check_parameter_name name of
        Inl e \<Rightarrow> Inl e
      | Inr n \<Rightarrow> (case v of PyInt i \<Rightarrow> Inr i | _ \<Rightarrow> Inl RP2TypeError))"

fun type_check_positive_int :: "py_value \<Rightarrow> py_value \<Rightarrow> bool \<Rightarrow> error + int" where
  "type_check_positive_int name v non_zero =
     (case type_check_int name v of
        Inl e \<Rightarrow> Inl e
      | Inr result \<Rightarrow>
          if result < 0 then Inl RP2ValueError
          else if non_zero \<and> result = 0 then Inl RP2ValueError
          else Inr result)"

text \<open>\<^verbatim>\<open>AccountingMethod.type_check\<close>: name, instance type, then the FIFO gate.\<close>

fun AccountingMethod_type_check :: "py_value \<Rightarrow> py_value \<Rightarrow> error + AccountingMethod" where
  "AccountingMethod_type_check name instance =
     (case type_check_parameter_name name of
        Inl e \<Rightarrow> Inl e
      | Inr n \<Rightarrow>
          (case instance of
             PyAccountingMethod m \<Rightarrow>
               if m \<noteq> FIFO then Inl NotImplementedError else Inr m
           | _ \<Rightarrow> Inl RP2TypeError))"

text \<open>
  The JSON document of the configuration file, after \<^verbatim>\<open>validate\<close>.  The
  file system is a parameter of the constructor: \<open>None\<close> for a path that does not
  exist, \<open>Some (Inl e)\<close> for a file whose loading or validation raises \<open>e\<close>.
\<close>

record json_configuration =
  json_in_header :: "(string \<times> int) list"
  json_out_header :: "(string \<times> int) list"
  json_intra_header :: "(string \<times> int) list"
  json_assets :: "string list"
  json_exchanges :: "string list"
  json_holders :: "string list"

type_synonym file_system = "string \<Rightarrow> (error + json_configuration) option"

record Configuration =
  configuration_path :: string
  accounting_method :: AccountingMethod
  up_to_year :: "int option"
  in_header :: "(string \<times> int) list"
  out_header :: "(string \<times> int) list"
  intra_header :: "(string \<times> int) list"
  assets :: "string set"
  exchanges :: "string set"
  holders :: "string set"

text \<open>
  \<^verbatim>\<open>Configuration.__init__\<close>, in the order of its statements: the path is
  type-checked, then the accounting method, then \<open>up_to_year\<close> (checked only when
  truthy, kept as it is otherwise: \<open>None\<close> and \<open>0\<close> both read back as falsy), and
  only then is the file looked up, loaded and validated.
\<close>

definition Configuration_init ::
  "file_system \<Rightarrow> py_value \<Rightarrow> py_value \<Rightarrow> py_value \<Rightarrow> error + Configuration" where
  "Configuration_init fs path method year_arg =
     (case type_check_string (PyStr ''configuration_path'') path of
        Inl e \<Rightarrow> Inl e
      | Inr p \<Rightarrow>
     (case AccountingMethod_type_check (PyStr ''accounting_method'') method of
        Inl e \<Rightarrow> Inl e
      | Inr m \<Rightarrow>
     (case (if truthy year_arg
            then map_sum id Some (type_check_positive_int (PyStr ''up_to_year'') year_arg True)
            else Inr (case year_arg of PyInt i \<Rightarrow> Some i | _ \<Rightarrow> None)) of
        Inl e \<Rightarrow> Inl e
      | Inr u \<Rightarrow>
     (case fs p of
        None \<Rightarrow> Inl RP2ValueError
      | Some (Inl e) \<Rightarrow> Inl e
      | Some (Inr j) \<Rightarrow>
          Inr \<lparr>configuration_path = p, accounting_method = m, up_to_year = u,
               in_header = json_in_header j, out_header = json_out_header j,
               intra_header = json_intra_header j,
               assets = set (json_assets j), exchanges = set (json_exchanges j),
               holders = set (json_holders j)\<rparr>))))"

section \<open>Data model of the tax engine\<close>

text \<open>
  Modelled from the spec: \<^verbatim>\<open>rp2_decimal\<close> is not part of the two modules.  The
  spec calls the quantities arbitrary-precision decimals, never binary floating point;
  they are rationals here, with exact sums, differences, products and comparisons.
\<close>

type_synonym RP2Decimal = rat

abbreviation ZERO :: RP2Decimal where
  "ZERO \<equiv> 0"

text \<open>
  Modelled from the spec: the enum \<^verbatim>\<open>TransactionType\<close> is not part of the two
  modules.  The spec names the kinds of transaction (acquisition, disposal, transfer,
  earned income and so on); the engine only tells \<open>EARN\<close>, the earned income, from
  the others, which are kept by name.
\<close>

datatype TransactionType = EARN | Other string

text \<open>
  \<^verbatim>\<open>YearlyGainLoss\<close> of \<^verbatim>\<open>computed_data\<close>, with the eight fields the engine
  passes to its constructor.
\<close>

record YearlyGainLoss =
  year :: int
  asset :: string
  transaction_type :: TransactionType
  is_long_term_capital_gains :: bool
  crypto_amount :: RP2Decimal
  usd_amount :: RP2Decimal
  usd_cost_basis :: RP2Decimal
  usd_gain_loss :: RP2Decimal

text \<open>
  A timezone-aware timestamp: the engine reads its \<open>year\<close>; \<open>instant\<close> is the point
  in time it denotes, in seconds, which is what orders two aware timestamps.
\<close>

record datetime =
  year :: int
  instant :: int

text \<open>
  The attributes of a transaction that the engine reads.  The classes themselves
  (\<^verbatim>\<open>AbstractTransaction\<close>, \<^verbatim>\<open>InTransaction\<close>, \<^verbatim>\<open>OutTransaction\<close>,
  \<^verbatim>\<open>IntraTransaction\<close>) are not part of the two modules, so every attribute,
  \<open>is_taxable\<close> included, is a field whose value the engine takes as it finds it.
  An \<open>InTransaction\<close> is an acquisition lot and adds \<open>crypto_in\<close> and
  \<open>usd_in_with_fee\<close>.
\<close>

record AbstractTransaction =
  timestamp :: datetime
  asset :: string
  transaction_type :: TransactionType
  crypto_taxable_amount :: RP2Decimal
  usd_taxable_amount :: RP2Decimal
  is_taxable :: bool

record InTransaction = AbstractTransaction +
  crypto_in :: RP2Decimal
  usd_in_with_fee :: RP2Decimal

text \<open>
  The three transaction collections of one asset, each as the sequence its iterator
  yields.
\<close>

record InputData =
  asset :: string
  in_transaction_set :: "InTransaction list"
  out_transaction_set :: "AbstractTransaction list"
  intra_transaction_set :: "AbstractTransaction list"

text \<open>
  Modelled from the spec: \<^verbatim>\<open>TransactionSet\<close> is not part of the two modules.  The
  spec has it an ordered collection, chronological with a stable tie-break, so
  \<open>add_entry\<close> puts the new entry after every entry that is not later than it; the
  list is the order of iteration.
\<close>

type_synonym TransactionSet = "AbstractTransaction list"

fun add_entry :: "TransactionSet \<Rightarrow> AbstractTransaction \<Rightarrow> TransactionSet" where
  "add_entry [] e = [e]"
| "add_entry (x # xs) e =
     (if instant (timestamp e) < instant (timestamp x) then e # x # xs
      else x # add_entry xs e)"

text \<open>
  A Gain/Loss Record as the engine constructs it: the fragment amount, the taxable
  event and the lot, \<open>None\<close> for a lotless record.
\<close>

record GainLoss =
  crypto_amount :: RP2Decimal
  taxable_event :: AbstractTransaction
  from_lot :: "InTransaction option"

text \<open>
  Modelled from the spec: the class \<^verbatim>\<open>GainLoss\<close> is not part of the two modules.
  Its derived attributes follow the spec's data model: the cost basis is the
  proportional share of the lot's USD cost and zero without a lot; the proceeds are
  the proportional share of the event's USD taxable amount; the gain is proceeds minus
  cost basis; a record is long-term when its holding period, from the lot's timestamp
  to the event's, is at least one year (365 days), and never without a lot.  Lots and
  taxable events have non-zero quantities, so the quotients are defined.
\<close>

definition GainLoss_asset :: "GainLoss \<Rightarrow> string" where
  "GainLoss_asset g = AbstractTransaction.asset (GainLoss.taxable_event g)"

definition usd_cost_basis :: "GainLoss \<Rightarrow> RP2Decimal" where
  "usd_cost_basis g =
     (case GainLoss.from_lot g of
        None \<Rightarrow> ZERO
      | Some lot \<Rightarrow> GainLoss.crypto_amount g / crypto_in lot * usd_in_with_fee lot)"

definition taxable_event_usd_amount_with_fee_fraction :: "GainLoss \<Rightarrow> RP2Decimal" where
  "taxable_event_usd_amount_with_fee_fraction g =
     GainLoss.crypto_amount g / crypto_taxable_amount (GainLoss.taxable_event g)
       * usd_taxable_amount (GainLoss.taxable_event g)"

definition usd_gain :: "GainLoss \<Rightarrow> RP2Decimal" where
  "usd_gain g = taxable_event_usd_amount_with_fee_fraction g - usd_cost_basis g"

definition is_long_term_capital_gains :: "GainLoss \<Rightarrow> bool" where
  "is_long_term_capital_gains g =
     (case GainLoss.from_lot g of
        None \<Rightarrow> False
      | Some lot \<Rightarrow>
          (instant (timestamp (GainLoss.taxable_event g)) - instant (timestamp lot))
            div 86400 \<ge> 365)"

text \<open>
  \<^verbatim>\<open>GainLossSet\<close> is not part of the two modules either; it is the sequence of the
  records in the order the matcher adds them.
\<close>

type_synonym GainLossSet = "GainLoss list"

definition GainLossSet_add_entry :: "GainLossSet \<Rightarrow> GainLoss \<Rightarrow> GainLossSet" where
  "GainLossSet_add_entry gain_loss_set gain_loss = gain_loss_set @ [gain_loss]"

section \<open>tax\_engine.py: the taxable event set\<close>

text \<open>
  \<^verbatim>\<open>_create_taxable_event_set\<close>.  The function reads the three collections of
  the input and writes only to the set it creates; the state of the loops is the input
  together with that set, so that what the loops leave of the input can be stated.
  An \<open>InTransaction\<close> enters the mixed set as the transaction it is, without the
  attributes only a lot has.
\<close>

record extractor_state =
  input_data :: InputData
  taxable_event_set :: TransactionSet

fun for_entry_in :: "AbstractTransaction list \<Rightarrow> extractor_state \<Rightarrow> extractor_state" where
  "for_entry_in [] s = s"
| "for_entry_in (transaction # rest) s =
     for_entry_in rest
       (if is_taxable transaction
        then s\<lparr>taxable_event_set := add_entry (taxable_event_set s) transaction\<rparr>
        else s)"

definition create_taxable_event_set_loops :: "InputData \<Rightarrow> extractor_state" where
  "create_taxable_event_set_loops inp =
     (let s0 = \<lparr>input_data = inp, taxable_event_set = []\<rparr>;
          s1 = for_entry_in
                 (map AbstractTransaction.truncate (in_transaction_set (input_data s0))) s0;
          s2 = for_entry_in (out_transaction_set (input_data s1)) s1;
          s3 = for_entry_in (intra_transaction_set (input_data s2)) s2
      in s3)"

definition create_taxable_event_set :: "Configuration \<Rightarrow> InputData \<Rightarrow> TransactionSet" where
  "create_taxable_event_set configuration inp =
     taxable_event_set (create_taxable_event_set_loops inp)"

section \<open>tax\_engine.py: the lot matcher\<close>

text \<open>
  Modelled from the spec: the iterator of a \<^verbatim>\<open>TransactionSet\<close> is not part of the
  two modules.  \<^verbatim>\<open>next\<close> yields the entries in order; past the end it raises
  \<^verbatim>\<open>StopIteration\<close> whose value is the iterator that ran out, which is what the
  handler of the matcher compares with \<^verbatim>\<open>from_lot_iterator\<close>.  An iterator is the
  list of the entries it has not yielded yet.
\<close>

datatype stop_value = TaxableEventIterator | FromLotIterator

fun py_next :: "stop_value \<Rightarrow> 'a list \<Rightarrow> stop_value + ('a \<times> 'a list)" where
  "py_next it [] = Inl it"
| "py_next it (x # xs) = Inr (x, xs)"

text \<open>
  The local variables of \<^verbatim>\<open>_create_gain_and_loss_set\<close> inside its loop.
\<close>

record loop_state =
  gain_loss_set :: GainLossSet
  taxable_event :: AbstractTransaction
  taxable_event_amount :: RP2Decimal
  from_lot :: InTransaction
  from_lot_amount :: RP2Decimal
  taxable_event_iterator :: "AbstractTransaction list"
  from_lot_iterator :: "InTransaction list"

text \<open>
  One pass through the body of \<^verbatim>\<open>while True\<close>.  \<open>Inl\<close> is a
  \<^verbatim>\<open>StopIteration\<close> leaving the loop, with the iterator that raised it and the
  gain/loss set as it is at that moment (the record of the pass has been added before
  either \<^verbatim>\<open>next\<close>); \<open>Inr\<close> is the state at the start of the next pass.
\<close>

definition step :: "loop_state \<Rightarrow> (stop_value \<times> GainLossSet) + loop_state" where
  "step s =
     (if AbstractTransaction.transaction_type (taxable_event s) = EARN then
        (let gls = GainLossSet_add_entry (gain_loss_set s)
               \<lparr>GainLoss.crypto_amount = taxable_event_amount s,
                GainLoss.taxable_event = taxable_event s, GainLoss.from_lot = None\<rparr>
         in case py_next TaxableEventIterator (taxable_event_iterator s) of
              Inl it \<Rightarrow> Inl (it, gls)
            | Inr (e, es) \<Rightarrow>
                Inr (s\<lparr>gain_loss_set := gls, taxable_event := e,
                       taxable_event_amount := crypto_taxable_amount e,
                       taxable_event_iterator := es\<rparr>))
      else if taxable_event_amount s = from_lot_amount s then
        (let gls = GainLossSet_add_entry (gain_loss_set s)
               \<lparr>GainLoss.crypto_amount = taxable_event_amount s,
                GainLoss.taxable_event = taxable_event s,
                GainLoss.from_lot = Some (from_lot s)\<rparr>
         in case py_next TaxableEventIterator (taxable_event_iterator s) of
              Inl it \<Rightarrow> Inl (it, gls)
            | Inr (e, es) \<Rightarrow>
               (case py_next FromLotIterator (from_lot_iterator s) of
                  Inl it \<Rightarrow> Inl (it, gls)
                | Inr (l, ls) \<Rightarrow>
                    Inr (s\<lparr>gain_loss_set := gls, taxable_event := e,
                           taxable_event_amount := crypto_taxable_amount e,
                           taxable_event_iterator := es,
                           from_lot := l, from_lot_amount := crypto_in l,
                           from_lot_iterator := ls\<rparr>)))
      else if taxable_event_amount s < from_lot_amount s then
        (let gls = GainLossSet_add_entry (gain_loss_set s)
               \<lparr>GainLoss.crypto_amount = taxable_event_amount s,
                GainLoss.taxable_event = taxable_event s,
                GainLoss.from_lot = Some (from_lot s)\<rparr>
         in case py_next TaxableEventIterator (taxable_event_iterator s) of
              Inl it \<Rightarrow> Inl (it, gls)
            | Inr (e, es) \<Rightarrow>
                Inr (s\<lparr>gain_loss_set := gls,
                       from_lot_amount := from_lot_amount s - taxable_event_amount s,
                       taxable_event := e,
                       taxable_event_amount := crypto_taxable_amount e,
                       taxable_event_iterator := es\<rparr>))
      else
        (let gls = GainLossSet_add_entry (gain_loss_set s)
               \<lparr>GainLoss.crypto_amount = from_lot_amount s,
                GainLoss.taxable_event = taxable_event s,
                GainLoss.from_lot = Some (from_lot s)\<rparr>
         in case py_next FromLotIterator (from_lot_iterator s) of
              Inl it \<Rightarrow> Inl (it, gls)
            | Inr (l, ls) \<Rightarrow>
                Inr (s\<lparr>gain_loss_set := gls,
                       taxable_event_amount := taxable_event_amount s - from_lot_amount s,
                       from_lot := l, from_lot_amount := crypto_in l,
                       from_lot_iterator := ls\<rparr>)))"

function while_True :: "loop_state \<Rightarrow> stop_value \<times> GainLossSet" where
  "while_True s = (case step s of Inl r \<Rightarrow> r | Inr s' \<Rightarrow> while_True s')"
  by pat_completeness auto
termination
  by (relation "measure (\<lambda>s. length (taxable_event_iterator s) + length (from_lot_iterator s))")
     (auto simp: step_def Let_def split: if_splits sum.splits list.splits prod.splits
        elim!: py_next.elims)

text \<open>
  The \<^verbatim>\<open>except StopIteration\<close> clause: the error is raised when the value of the
  exception is the lot iterator; otherwise control falls through to
  \<^verbatim>\<open>return gain_loss_set\<close>.
\<close>

definition except_StopIteration :: "stop_value \<times> GainLossSet \<Rightarrow> error + GainLossSet" where
  "except_StopIteration r =
     (if fst r = FromLotIterator then Inl RP2ValueError else Inr (snd r))"

definition create_gain_and_loss_set ::
  "Configuration \<Rightarrow> InputData \<Rightarrow> TransactionSet \<Rightarrow> error + GainLossSet" where
  "create_gain_and_loss_set configuration inp taxable_events =
     (case py_next TaxableEventIterator taxable_events of
        Inl it \<Rightarrow> except_StopIteration (it, [])
      | Inr (e, es) \<Rightarrow>
         (case py_next FromLotIterator (in_transaction_set inp) of
            Inl it \<Rightarrow> except_StopIteration (it, [])
          | Inr (l, ls) \<Rightarrow>
              except_StopIteration
                (while_True
                   \<lparr>gain_loss_set = [], taxable_event = e,
                    taxable_event_amount = crypto_taxable_amount e,
                    from_lot = l, from_lot_amount = crypto_in l,
                    taxable_event_iterator = es, from_lot_iterator = ls\<rparr>)))"

section \<open>tax\_engine.py: the consistency verifier\<close>

text \<open>A \<^verbatim>\<open>for\<close> loop that adds an attribute of every entry to a running sum.\<close>

fun running_sum :: "('a \<Rightarrow> RP2Decimal) \<Rightarrow> RP2Decimal \<Rightarrow> 'a list \<Rightarrow> RP2Decimal" where
  "running_sum f running [] = running"
| "running_sum f running (entry # rest) = running_sum f (running + f entry) rest"

text \<open>
  The cost basis loop of \<^verbatim>\<open>_verify_computation\<close>, with its \<^verbatim>\<open>break\<close>.  The
  arguments are \<open>crypto_sold_amount_total_verify\<close>, the running
  \<open>crypto_in_amount_total\<close> and \<open>cost_basis_total_verify\<close>, and the lots still to
  visit.  The quotient of the last lot is a division of decimals, which raises when
  the divisor is zero.
\<close>

fun cost_basis_loop ::
  "RP2Decimal \<Rightarrow> RP2Decimal \<Rightarrow> RP2Decimal \<Rightarrow> InTransaction list
   \<Rightarrow> error + (RP2Decimal \<times> RP2Decimal)" where
  "cost_basis_loop sold crypto_in_amount_total cost_basis_total_verify [] =
     Inr (crypto_in_amount_total, cost_basis_total_verify)"
| "cost_basis_loop sold crypto_in_amount_total cost_basis_total_verify
     (in_transaction # rest) =
     (if crypto_in_amount_total + crypto_in in_transaction > sold then
        (let crypto_in_amount = sold - crypto_in_amount_total
         in if crypto_in in_transaction = 0 then Inl DecimalError
            else Inr (crypto_in_amount_total + crypto_in_amount,
                      cost_basis_total_verify
                        + (crypto_in_amount / crypto_in in_transaction)
                            * usd_in_with_fee in_transaction))
      else cost_basis_loop sold (crypto_in_amount_total + crypto_in in_transaction)
             (cost_basis_total_verify + usd_in_with_fee in_transaction) rest)"

definition verify_computation ::
  "InputData \<Rightarrow> RP2Decimal \<Rightarrow> RP2Decimal \<Rightarrow> RP2Decimal \<Rightarrow> RP2Decimal \<Rightarrow> error + unit" where
  "verify_computation inp crypto_taxable_amount_total usd_taxable_amount_total
     cost_basis_total gain_loss_total =
     (let usd1 = running_sum usd_taxable_amount ZERO (in_transaction_set inp);
          crypto_earned_amount_total_verify =
            running_sum crypto_taxable_amount ZERO (in_transaction_set inp);
          usd2 = running_sum usd_taxable_amount usd1 (out_transaction_set inp);
          sold1 = running_sum crypto_taxable_amount ZERO (out_transaction_set inp);
          usd_taxable_amount_total_verify =
            running_sum usd_taxable_amount usd2 (intra_transaction_set inp);
          crypto_sold_amount_total_verify =
            running_sum crypto_taxable_amount sold1 (intra_transaction_set inp);
          crypto_taxable_amount_total_verify =
            crypto_sold_amount_total_verify + crypto_earned_amount_total_verify
      in case cost_basis_loop crypto_sold_amount_total_verify ZERO ZERO
                (in_transaction_set inp) of
           Inl e \<Rightarrow> Inl e
         | Inr (crypto_in_amount_total, cost_basis_total_verify) \<Rightarrow>
            (let gain_loss_total_verify =
                   usd_taxable_amount_total_verify - cost_basis_total_verify
             in if crypto_taxable_amount_total \<noteq> crypto_taxable_amount_total_verify
                then Inl (Exception CryptoTaxableAmount)
                else if usd_taxable_amount_total \<noteq> usd_taxable_amount_total_verify
                then Inl (Exception UsdTaxableAmount)
                else if cost_basis_total \<noteq> cost_basis_total_verify
                then Inl (Exception CostBasis)
                else if gain_loss_total \<noteq> gain_loss_total_verify
                then Inl (Exception GainLossTotal)
                else Inr ()))"

section \<open>tax\_engine.py: the yearly aggregation\<close>

datatype YearlyGainLossId = YearlyGainLossId int string TransactionType bool

datatype YearlyGainLossAmounts =
  YearlyGainLossAmounts RP2Decimal RP2Decimal RP2Decimal RP2Decimal

text \<open>
  A Python \<^verbatim>\<open>dict\<close> keeps its keys in the order of their first insertion: an
  association list with one pair per key.  \<open>setdefault\<close> returns the value of the
  key, inserting the default when the key is new; \<open>setitem\<close> is
  \<^verbatim>\<open>d[key] = value\<close>.
\<close>

type_synonym ('k, 'v) dict = "('k \<times> 'v) list"

definition setdefault :: "('k, 'v) dict \<Rightarrow> 'k \<Rightarrow> 'v \<Rightarrow> 'v \<times> ('k, 'v) dict" where
  "setdefault d k dflt =
     (case map_of d k of Some v \<Rightarrow> (v, d) | None \<Rightarrow> (dflt, d @ [(k, dflt)]))"

fun setitem :: "('k, 'v) dict \<Rightarrow> 'k \<Rightarrow> 'v \<Rightarrow> ('k, 'v) dict" where
  "setitem [] k v = [(k, v)]"
| "setitem (p # d) k v = (if fst p = k then (k, v) # d else p # setitem d k v)"

text \<open>The key of a record, as the first loop builds it.\<close>

definition key_of :: "GainLoss \<Rightarrow> YearlyGainLossId" where
  "key_of gain_loss =
     YearlyGainLossId
       (datetime.year (timestamp (GainLoss.taxable_event gain_loss)))
       (GainLoss_asset gain_loss)
       (AbstractTransaction.transaction_type (GainLoss.taxable_event gain_loss))
       (is_long_term_capital_gains gain_loss)"

text \<open>The body of the first loop of \<^verbatim>\<open>_create_yearly_gain_loss_list\<close>.\<close>

definition summarize ::
  "(YearlyGainLossId, YearlyGainLossAmounts) dict \<Rightarrow> GainLoss
   \<Rightarrow> (YearlyGainLossId, YearlyGainLossAmounts) dict" where
  "summarize summaries gain_loss =
     (let key = key_of gain_loss;
          (val, summaries1) =
            setdefault summaries key (YearlyGainLossAmounts ZERO ZERO ZERO ZERO)
      in case val of
           YearlyGainLossAmounts v_crypto_amount v_usd_amount v_usd_cost_basis
               v_usd_gain_loss \<Rightarrow>
             setitem summaries1 key
               (YearlyGainLossAmounts
                  (v_crypto_amount + GainLoss.crypto_amount gain_loss)
                  (v_usd_amount + taxable_event_usd_amount_with_fee_fraction gain_loss)
                  (v_usd_cost_basis + usd_cost_basis gain_loss)
                  (v_usd_gain_loss + usd_gain gain_loss)))"

text \<open>
  The second loop: one \<open>YearlyGainLoss\<close> per item of the dictionary, added to a set,
  and the four totals.  The set is a list without repetitions.
\<close>

fun new_YearlyGainLoss :: "YearlyGainLossId \<times> YearlyGainLossAmounts \<Rightarrow> YearlyGainLoss" where
  "new_YearlyGainLoss
     (YearlyGainLossId k_year k_asset k_type k_long,
      YearlyGainLossAmounts v_crypto_amount v_usd_amount v_usd_cost_basis v_usd_gain_loss) =
     \<lparr>YearlyGainLoss.year = k_year, YearlyGainLoss.asset = k_asset,
      YearlyGainLoss.transaction_type = k_type,
      YearlyGainLoss.is_long_term_capital_gains = k_long,
      YearlyGainLoss.crypto_amount = v_crypto_amount,
      YearlyGainLoss.usd_amount = v_usd_amount,
      YearlyGainLoss.usd_cost_basis = v_usd_cost_basis,
      YearlyGainLoss.usd_gain_loss = v_usd_gain_loss\<rparr>"

definition set_add :: "'a list \<Rightarrow> 'a \<Rightarrow> 'a list" where
  "set_add xs x = (if x \<in> set xs then xs else xs @ [x])"

record totals =
  yearly_gain_loss_set :: "YearlyGainLoss list"
  crypto_taxable_amount_total :: RP2Decimal
  usd_taxable_amount_total :: RP2Decimal
  cost_basis_total :: RP2Decimal
  gain_loss_total :: RP2Decimal

fun for_items :: "(YearlyGainLossId, YearlyGainLossAmounts) dict \<Rightarrow> totals \<Rightarrow> totals" where
  "for_items [] t = t"
| "for_items (item # rest) t =
     (let yearly_gain_loss = new_YearlyGainLoss item
      in for_items rest
           \<lparr>yearly_gain_loss_set = set_add (yearly_gain_loss_set t) yearly_gain_loss,
            crypto_taxable_amount_total =
              crypto_taxable_amount_total t + YearlyGainLoss.crypto_amount yearly_gain_loss,
            usd_taxable_amount_total =
              usd_taxable_amount_total t + YearlyGainLoss.usd_amount yearly_gain_loss,
            cost_basis_total =
              cost_basis_total t + YearlyGainLoss.usd_cost_basis yearly_gain_loss,
            gain_loss_total =
              gain_loss_total t + YearlyGainLoss.usd_gain_loss yearly_gain_loss\<rparr>)"

text \<open>
  The text of an integer, as an f-string formats it, and the sort key.  The enum
  \<^verbatim>\<open>TransactionType\<close> is not part of the two modules, so the \<^verbatim>\<open>value\<close> of a
  member is a parameter, \<open>type_value\<close>.
\<close>

fun str_nat :: "nat \<Rightarrow> string" where
  "str_nat n =
     (if n < 10 then [''0123456789'' ! n]
      else str_nat (n div 10) @ [''0123456789'' ! (n mod 10)])"

definition str_int :: "int \<Rightarrow> string" where
  "str_int i = (if i < 0 then ''-'' @ str_nat (nat (- i)) else str_nat (nat i))"

definition yearly_gain_loss_sort_criteria ::
  "(TransactionType \<Rightarrow> string) \<Rightarrow> YearlyGainLoss \<Rightarrow> string" where
  "yearly_gain_loss_sort_criteria type_value yearly_gain_loss =
     YearlyGainLoss.asset yearly_gain_loss
     @ '' '' @ str_int (YearlyGainLoss.year yearly_gain_loss)
     @ '' '' @ (if YearlyGainLoss.is_long_term_capital_gains yearly_gain_loss
               then ''LONG'' else ''SHORT'')
     @ '' '' @ type_value (YearlyGainLoss.transaction_type yearly_gain_loss)"

text \<open>
  \<^verbatim>\<open>sorted(xs, key=f, reverse=True)\<close>: descending by key, entries with equal
  keys in their original order.  Strings are compared as Python compares them,
  character by character.
\<close>

definition sorted_reverse :: "('a \<Rightarrow> string) \<Rightarrow> 'a list \<Rightarrow> 'a list" where
  "sorted_reverse f xs = rev (sort_key f (rev xs))"

definition create_yearly_gain_loss_list ::
  "(TransactionType \<Rightarrow> string) \<Rightarrow> InputData \<Rightarrow> GainLossSet
   \<Rightarrow> error + YearlyGainLoss list" where
  "create_yearly_gain_loss_list type_value inp gls =
     (let summaries = foldl summarize [] gls;
          t = for_items summaries
                \<lparr>yearly_gain_loss_set = [], crypto_taxable_amount_total = ZERO,
                 usd_taxable_amount_total = ZERO, cost_basis_total = ZERO,
                 gain_loss_total = ZERO\<rparr>
      in case verify_computation inp (crypto_taxable_amount_total t)
                (usd_taxable_amount_total t) (cost_basis_total t) (gain_loss_total t) of
           Inl e \<Rightarrow> Inl e
         | Inr u \<Rightarrow>
             Inr (sorted_reverse (yearly_gain_loss_sort_criteria type_value)
                    (yearly_gain_loss_set t)))"

section \<open>tax\_engine.py: compute\_tax\<close>



section \<open>Quantities the properties of the matcher are stated with\<close>

text \<open>
  The sum of the fragment amounts of the records that reference a taxable event, and of
  those drawn from a lot.  A record references the object it was built with; the
  entries of a transaction set are pairwise different, so the object is told by its
  value.
\<close>

definition fragment_sum_of_event :: "GainLossSet \<Rightarrow> AbstractTransaction \<Rightarrow> RP2Decimal" where
  "fragment_sum_of_event gls e =
     sum_list (map GainLoss.crypto_amount (filter (\<lambda>g. GainLoss.taxable_event g = e) gls))"

definition fragment_sum_of_lot :: "GainLossSet \<Rightarrow> InTransaction \<Rightarrow> RP2Decimal" where
  "fragment_sum_of_lot gls l =
     sum_list (map GainLoss.crypto_amount (filter (\<lambda>g. GainLoss.from_lot g = Some l) gls))"

text \<open>
  The record one pass of the loop adds: lotless for an \<open>EARN\<close> event, otherwise
  against the current lot, for the smaller of the two remainders.
\<close>

definition emitted :: "loop_state \<Rightarrow> GainLoss" where
  "emitted s =
     (if AbstractTransaction.transaction_type (taxable_event s) = EARN then
        \<lparr>GainLoss.crypto_amount = taxable_event_amount s,
         GainLoss.taxable_event = taxable_event s, GainLoss.from_lot = None\<rparr>
      else
        \<lparr>GainLoss.crypto_amount = min (taxable_event_amount s) (from_lot_amount s),
         GainLoss.taxable_event = taxable_event s,
         GainLoss.from_lot = Some (from_lot s)\<rparr>)"

text \<open>
  The total taxable quantity of the events that need a lot, and the total quantity of
  a sequence of lots.
\<close>

definition taxable_total :: "AbstractTransaction list \<Rightarrow> RP2Decimal" where
  "taxable_total es =
     sum_list (map crypto_taxable_amount
       (filter (\<lambda>e. AbstractTransaction.transaction_type e \<noteq> EARN) es))"

definition lot_total :: "InTransaction list \<Rightarrow> RP2Decimal" where
  "lot_total ls = sum_list (map crypto_in ls)"

text \<open>
  The state at the first pass of the loop, when both sequences have a first entry;
  the state after a number of passes; and the state in which the lots are exhausted
  while taxable events remain: the current event needs a lot, the current lot is the
  last one, and either it cannot cover the event's remainder or it covers it exactly
  and further events follow.
\<close>

fun passes :: "nat \<Rightarrow> loop_state \<Rightarrow> (stop_value \<times> GainLossSet) + loop_state" where
  "passes 0 s = Inr s"
| "passes (Suc n) s = (case step s of Inl r \<Rightarrow> Inl r | Inr s' \<Rightarrow> passes n s')"

definition first_pass :: "InputData \<Rightarrow> TransactionSet \<Rightarrow> loop_state option" where
  "first_pass inp taxable_events =
     (case (taxable_events, in_transaction_set inp) of
        (e # es, l # ls) \<Rightarrow>
          Some \<lparr>gain_loss_set = [], taxable_event = e,
                taxable_event_amount = crypto_taxable_amount e,
                from_lot = l, from_lot_amount = crypto_in l,
                taxable_event_iterator = es, from_lot_iterator = ls\<rparr>
      | _ \<Rightarrow> None)"

definition lots_exhausted :: "loop_state \<Rightarrow> bool" where
  "lots_exhausted s \<longleftrightarrow>
     AbstractTransaction.transaction_type (taxable_event s) \<noteq> EARN
     \<and> from_lot_iterator s = []
     \<and> (from_lot_amount s < taxable_event_amount s
          \<or> from_lot_amount s = taxable_event_amount s \<and> taxable_event_iterator s \<noteq> [])"

text \<open>
  What a pass does to each of the two pointers: it advances to the next entry, whose
  quantity becomes the remainder, or it stays where it is.
\<close>

definition advances_event :: "loop_state \<Rightarrow> loop_state \<Rightarrow> bool" where
  "advances_event s s' \<longleftrightarrow>
     taxable_event_iterator s = taxable_event s' # taxable_event_iterator s'
     \<and> taxable_event_amount s' = crypto_taxable_amount (taxable_event s')"

definition keeps_event :: "loop_state \<Rightarrow> loop_state \<Rightarrow> bool" where
  "keeps_event s s' \<longleftrightarrow>
     taxable_event s' = taxable_event s
     \<and> taxable_event_iterator s' = taxable_event_iterator s"

definition advances_lot :: "loop_state \<Rightarrow> loop_state \<Rightarrow> bool" where
  "advances_lot s s' \<longleftrightarrow>
     from_lot_iterator s = from_lot s' # from_lot_iterator s'
     \<and> from_lot_amount s' = crypto_in (from_lot s')"

definition keeps_lot :: "loop_state \<Rightarrow> loop_state \<Rightarrow> bool" where
  "keeps_lot s s' \<longleftrightarrow>
     from_lot s' = from_lot s \<and> from_lot_iterator s' = from_lot_iterator s"

text \<open>
  The records of a gain/loss set that reference a taxable event, and the record of a
  lotless event: its whole taxable amount, with no lot.
\<close>

definition records_of_event :: "GainLossSet \<Rightarrow> AbstractTransaction \<Rightarrow> GainLoss list" where
  "records_of_event gls e = filter (\<lambda>g. GainLoss.taxable_event g = e) gls"

definition lotless_record :: "AbstractTransaction \<Rightarrow> GainLoss" where
  "lotless_record e =
     \<lparr>GainLoss.crypto_amount = crypto_taxable_amount e, GainLoss.taxable_event = e,
      GainLoss.from_lot = None\<rparr>"

section \<open>Totals recomputed from the raw collections\<close>

text \<open>
  The totals the verifier compares with, stated on their own: the taxable crypto and
  USD amounts summed over the three collections, the disposed quantity (disposals
  and transfers), and the cost basis of walking the lots in order, taking whole lots
  while they fit into what is left of the disposed quantity and the proportional
  share of the first lot that does not.
\<close>

definition crypto_taxable_total :: "InputData \<Rightarrow> RP2Decimal" where
  "crypto_taxable_total inp =
     sum_list (map crypto_taxable_amount (in_transaction_set inp))
     + sum_list (map crypto_taxable_amount (out_transaction_set inp))
     + sum_list (map crypto_taxable_amount (intra_transaction_set inp))"

definition usd_taxable_total :: "InputData \<Rightarrow> RP2Decimal" where
  "usd_taxable_total inp =
     sum_list (map usd_taxable_amount (in_transaction_set inp))
     + sum_list (map usd_taxable_amount (out_transaction_set inp))
     + sum_list (map usd_taxable_amount (intra_transaction_set inp))"

definition disposed_total :: "InputData \<Rightarrow> RP2Decimal" where
  "disposed_total inp =
     sum_list (map crypto_taxable_amount (out_transaction_set inp))
     + sum_list (map crypto_taxable_amount (intra_transaction_set inp))"

fun walk_lots :: "RP2Decimal \<Rightarrow> InTransaction list \<Rightarrow> RP2Decimal" where
  "walk_lots remaining [] = 0"
| "walk_lots remaining (lot # lots) =
     (if crypto_in lot \<le> remaining
      then usd_in_with_fee lot + walk_lots (remaining - crypto_in lot) lots
      else remaining / crypto_in lot * usd_in_with_fee lot)"

definition walked_cost_basis :: "InputData \<Rightarrow> RP2Decimal" where
  "walked_cost_basis inp = walk_lots (disposed_total inp) (in_transaction_set inp)"

section \<open>Keys and sums the properties of the aggregation are stated with\<close>

text \<open>
  The key of a summary, the records of a gain/loss set that have a given key, and the
  four sums over a list of records.
\<close>

definition YearlyGainLoss_key :: "YearlyGainLoss \<Rightarrow> YearlyGainLossId" where
  "YearlyGainLoss_key y =
     YearlyGainLossId (YearlyGainLoss.year y) (YearlyGainLoss.asset y)
       (YearlyGainLoss.transaction_type y) (YearlyGainLoss.is_long_term_capital_gains y)"

definition records_of_key :: "GainLossSet \<Rightarrow> YearlyGainLossId \<Rightarrow> GainLoss list" where
  "records_of_key gls k = filter (\<lambda>g. key_of g = k) gls"

definition summed :: "GainLoss list \<Rightarrow> YearlyGainLossAmounts" where
  "summed gs =
     YearlyGainLossAmounts
       (sum_list (map GainLoss.crypto_amount gs))
       (sum_list (map taxable_event_usd_amount_with_fee_fraction gs))
       (sum_list (map usd_cost_basis gs))
       (sum_list (map usd_gain gs))"

text \<open>
  The key of a record in the words of the aggregation: the year of its taxable event,
  its asset, the transaction type of the event and its long-term flag; the same four
  components of a summary and of an identifier; and the records of a gain/loss set
  that have given components.
\<close>

definition record_key :: "GainLoss \<Rightarrow> int \<times> string \<times> TransactionType \<times> bool" where
  "record_key g =
     (datetime.year (timestamp (GainLoss.taxable_event g)),
      GainLoss_asset g,
      AbstractTransaction.transaction_type (GainLoss.taxable_event g),
      is_long_term_capital_gains g)"

definition summary_key :: "YearlyGainLoss \<Rightarrow> int \<times> string \<times> TransactionType \<times> bool" where
  "summary_key s =
     (YearlyGainLoss.year s, YearlyGainLoss.asset s, YearlyGainLoss.transaction_type s,
      YearlyGainLoss.is_long_term_capital_gains s)"

fun YearlyGainLossId_fields ::
  "YearlyGainLossId \<Rightarrow> int \<times> string \<times> TransactionType \<times> bool" where
  "YearlyGainLossId_fields (YearlyGainLossId y a t l) = (y, a, t, l)"

definition records_with ::
  "GainLossSet \<Rightarrow> int \<times> string \<times> TransactionType \<times> bool \<Rightarrow> GainLoss list" where
  "records_with gls k = filter (\<lambda>g. record_key g = k) gls"

text \<open>
  The order of two summaries by asset, then year, then term classification, then event
  kind: the earlier component decides, the later ones break ties.  The term
  classification is the word \<open>LONG\<close> or \<open>SHORT\<close> and the event kind the value of
  the transaction type, both compared as texts.
\<close>

definition term_classification :: "YearlyGainLoss \<Rightarrow> string" where
  "term_classification s =
     (if YearlyGainLoss.is_long_term_capital_gains s then ''LONG'' else ''SHORT'')"

definition composite_key_ge ::
  "(TransactionType \<Rightarrow> string) \<Rightarrow> YearlyGainLoss \<Rightarrow> YearlyGainLoss \<Rightarrow> bool" where
  "composite_key_ge type_value a b \<longleftrightarrow>
     YearlyGainLoss.asset b < YearlyGainLoss.asset a
     \<or> YearlyGainLoss.asset b = YearlyGainLoss.asset a
       \<and> (YearlyGainLoss.year b < YearlyGainLoss.year a
          \<or> YearlyGainLoss.year b = YearlyGainLoss.year a
            \<and> (term_classification b < term_classification a
               \<or> term_classification b = term_classification a
                 \<and> type_value (YearlyGainLoss.transaction_type b)
                     \<le> type_value (YearlyGainLoss.transaction_type a)))"

definition example_json :: json_configuration where
  "example_json =
     \<lparr>json_in_header = [(''timestamp'', 0)], json_out_header = [(''timestamp'', 0)],
      json_intra_header = [(''timestamp'', 0)], json_assets = [''BTC''],
      json_exchanges = [''Coinbase''], json_holders = [''Bob'']\<rparr>"

definition example_fs :: file_system where
  "example_fs p = (if p = ''config.json'' then Some (Inr example_json) else None)"

text \<open>
  Example inputs: acquisitions, earned income and disposals of one asset, on numbered
  days of 2020.
\<close>

definition example_configuration :: Configuration where
  "example_configuration =
     \<lparr>configuration_path = ''config.json'', accounting_method = FIFO, up_to_year = None,
      in_header = [(''timestamp'', 0)], out_header = [(''timestamp'', 0)],
      intra_header = [(''timestamp'', 0)], assets = {''BTC''},
      exchanges = {''Coinbase''}, holders = {''Bob''}\<rparr>"

definition buy :: "int \<Rightarrow> RP2Decimal \<Rightarrow> RP2Decimal \<Rightarrow> InTransaction" where
  "buy day quantity cost =
     \<lparr>timestamp = \<lparr>datetime.year = 2020, instant = 1577836800 + 86400 * day\<rparr>,
      AbstractTransaction.asset = ''BTC'',
      AbstractTransaction.transaction_type = Other ''BUY'',
      crypto_taxable_amount = 0, usd_taxable_amount = 0, is_taxable = False,
      crypto_in = quantity, usd_in_with_fee = cost\<rparr>"

definition earn :: "int \<Rightarrow> RP2Decimal \<Rightarrow> RP2Decimal \<Rightarrow> InTransaction" where
  "earn day quantity income =
     \<lparr>timestamp = \<lparr>datetime.year = 2020, instant = 1577836800 + 86400 * day\<rparr>,
      AbstractTransaction.asset = ''BTC'',
      AbstractTransaction.transaction_type = EARN,
      crypto_taxable_amount = quantity, usd_taxable_amount = income, is_taxable = True,
      crypto_in = quantity, usd_in_with_fee = income\<rparr>"

definition sell :: "int \<Rightarrow> RP2Decimal \<Rightarrow> RP2Decimal \<Rightarrow> AbstractTransaction" where
  "sell day quantity proceeds =
     \<lparr>timestamp = \<lparr>datetime.year = 2020, instant = 1577836800 + 86400 * day\<rparr>,
      AbstractTransaction.asset = ''BTC'',
      AbstractTransaction.transaction_type = Other ''SELL'',
      crypto_taxable_amount = quantity, usd_taxable_amount = proceeds, is_taxable = True\<rparr>"

text \<open>Two lots of 6 units and one disposal of 8 units.\<close>

definition two_lots :: InputData where
  "two_lots =
     \<lparr>InputData.asset = ''BTC'', in_transaction_set = [buy 1 6 60, buy 2 6 90],
      out_transaction_set = [sell 3 8 100], intra_transaction_set = []\<rparr>"

text \<open>Acquisitions of 5 units, disposals of 7.\<close>

definition five_against_seven :: InputData where
  "five_against_seven =
     \<lparr>InputData.asset = ''BTC'', in_transaction_set = [buy 1 5 50],
      out_transaction_set = [sell 2 7 70], intra_transaction_set = []\<rparr>"

text \<open>
  States of the loop: an 8-unit disposal in front of a 6-unit lot, with chosen
  remainders, and an earned unit in front of a lot of which 4 units remain.  An input
  with an earned unit that is also the second lot.
\<close>

definition example_state :: "RP2Decimal \<Rightarrow> RP2Decimal \<Rightarrow> loop_state" where
  "example_state event_amount lot_amount =
     \<lparr>gain_loss_set = [], taxable_event = sell 3 8 100,
      taxable_event_amount = event_amount,
      from_lot = buy 1 6 60, from_lot_amount = lot_amount,
      taxable_event_iterator = [sell 4 1 10], from_lot_iterator = [buy 2 6 90]\<rparr>"

definition example_earn_state :: loop_state where
  "example_earn_state =
     \<lparr>gain_loss_set = [], taxable_event = AbstractTransaction.truncate (earn 3 1 10),
      taxable_event_amount = 1,
      from_lot = buy 1 6 60, from_lot_amount = 4,
      taxable_event_iterator = [sell 4 1 10], from_lot_iterator = [buy 2 6 90]\<rparr>"

definition earn_then_sell :: InputData where
  "earn_then_sell =
     \<lparr>InputData.asset = ''BTC'', in_transaction_set = [buy 1 6 60, earn 2 1 10],
      out_transaction_set = [sell 3 7 100], intra_transaction_set = []\<rparr>"

text \<open>
  The values of the transaction types, a balance set that is always built, and two
  inputs without acquisitions.
\<close>

definition example_type_value :: "TransactionType \<Rightarrow> string" where
  "example_type_value t = (case t of EARN \<Rightarrow> ''earn'' | Other name \<Rightarrow> name)"




text \<open>
  An input over two years: ten units bought and four sold in 2020; in 2021 one unit
  earned, five bought, and eight sold, six of them held for more than a year.  The
  gain/loss records the matcher makes of it, and the summaries of the years.  Two
  records of different assets.
\<close>

definition on_day :: "int \<Rightarrow> int \<Rightarrow> datetime" where
  "on_day y d = \<lparr>datetime.year = y, instant = 1577836800 + 86400 * d\<rparr>"

definition acquisition :: "datetime \<Rightarrow> RP2Decimal \<Rightarrow> RP2Decimal \<Rightarrow> InTransaction" where
  "acquisition t quantity cost =
     \<lparr>timestamp = t, AbstractTransaction.asset = ''BTC'',
      AbstractTransaction.transaction_type = Other ''buy'',
      crypto_taxable_amount = 0, usd_taxable_amount = 0, is_taxable = False,
      crypto_in = quantity, usd_in_with_fee = cost\<rparr>"

definition income :: "datetime \<Rightarrow> RP2Decimal \<Rightarrow> RP2Decimal \<Rightarrow> InTransaction" where
  "income t quantity usd =
     \<lparr>timestamp = t, AbstractTransaction.asset = ''BTC'',
      AbstractTransaction.transaction_type = EARN,
      crypto_taxable_amount = quantity, usd_taxable_amount = usd, is_taxable = True,
      crypto_in = quantity, usd_in_with_fee = usd\<rparr>"

definition disposal :: "datetime \<Rightarrow> RP2Decimal \<Rightarrow> RP2Decimal \<Rightarrow> AbstractTransaction" where
  "disposal t quantity proceeds =
     \<lparr>timestamp = t, AbstractTransaction.asset = ''BTC'',
      AbstractTransaction.transaction_type = Other ''sell'',
      crypto_taxable_amount = quantity, usd_taxable_amount = proceeds, is_taxable = True\<rparr>"

definition two_years :: InputData where
  "two_years =
     \<lparr>InputData.asset = ''BTC'',
      in_transaction_set =
        [acquisition (on_day 2020 1) 10 100, income (on_day 2021 380) 1 20,
         acquisition (on_day 2021 400) 5 100],
      out_transaction_set =
        [disposal (on_day 2020 3) 4 60, disposal (on_day 2021 500) 8 160],
      intra_transaction_set = []\<rparr>"

definition two_years_records :: GainLossSet where
  "two_years_records =
     [\<lparr>GainLoss.crypto_amount = 4, GainLoss.taxable_event = disposal (on_day 2020 3) 4 60,
       GainLoss.from_lot = Some (acquisition (on_day 2020 1) 10 100)\<rparr>,
      \<lparr>GainLoss.crypto_amount = 1,
       GainLoss.taxable_event = AbstractTransaction.truncate (income (on_day 2021 380) 1 20),
       GainLoss.from_lot = None\<rparr>,
      \<lparr>GainLoss.crypto_amount = 6, GainLoss.taxable_event = disposal (on_day 2021 500) 8 160,
       GainLoss.from_lot = Some (acquisition (on_day 2020 1) 10 100)\<rparr>,
      \<lparr>GainLoss.crypto_amount = 1, GainLoss.taxable_event = disposal (on_day 2021 500) 8 160,
       GainLoss.from_lot = Some (income (on_day 2021 380) 1 20)\<rparr>,
      \<lparr>GainLoss.crypto_amount = 1, GainLoss.taxable_event = disposal (on_day 2021 500) 8 160,
       GainLoss.from_lot = Some (acquisition (on_day 2021 400) 5 100)\<rparr>]"

definition summary ::
  "int \<Rightarrow> TransactionType \<Rightarrow> bool \<Rightarrow> RP2Decimal \<Rightarrow> RP2Decimal \<Rightarrow> RP2Decimal \<Rightarrow> RP2Decimal
   \<Rightarrow> YearlyGainLoss" where
  "summary y t l amount proceeds cost gain =
     \<lparr>YearlyGainLoss.year = y, YearlyGainLoss.asset = ''BTC'',
      YearlyGainLoss.transaction_type = t,
      YearlyGainLoss.is_long_term_capital_gains = l,
      YearlyGainLoss.crypto_amount = amount, YearlyGainLoss.usd_amount = proceeds,
      YearlyGainLoss.usd_cost_basis = cost, YearlyGainLoss.usd_gain_loss = gain\<rparr>"

definition two_years_yearly :: "YearlyGainLoss list" where
  "two_years_yearly =
     [summary 2021 (Other ''sell'') False 2 40 40 0,
      summary 2021 EARN False 1 20 0 20,
      summary 2021 (Other ''sell'') True 6 120 60 60,
      summary 2020 (Other ''sell'') False 4 60 40 20]"

definition two_assets_records :: GainLossSet where
  "two_assets_records =
     [\<lparr>GainLoss.crypto_amount = 4, GainLoss.taxable_event = disposal (on_day 2020 3) 4 60,
       GainLoss.from_lot = Some (acquisition (on_day 2020 1) 10 100)\<rparr>,
      \<lparr>GainLoss.crypto_amount = 1,
       GainLoss.taxable_event =
         (disposal (on_day 2020 3) 1 30)\<lparr>AbstractTransaction.asset := ''ETH''\<rparr>,
       GainLoss.from_lot = Some (acquisition (on_day 2020 1) 10 100)\<rparr>]"

section \<open>Accounting method gate\<close>

lemma AccountingMethod_type_check_FIFO:
  "AccountingMethod_type_check (PyStr n) (PyAccountingMethod FIFO) = Inr FIFO"
  by simp

lemma AccountingMethod_type_check_Inr:
  "AccountingMethod_type_check n v = Inr m \<Longrightarrow> m = FIFO"
  by (auto split: sum.splits py_value.splits if_splits)

text \<open>
  Claim C9.  Constructing a Configuration with a string path and an accounting method
  other than FIFO fails with \<open>NotImplementedError\<close> whatever the file system holds and
  whatever \<open>up_to_year\<close> is: the gate sits before the file is touched.  The check
  itself accepts FIFO, and every Configuration that a constructor call returns has
  the FIFO method, so no matching ever runs under another method.
\<close>

theorem Configuration_init_accounting_method:
  "(m \<noteq> FIFO \<longrightarrow>
      Configuration_init fs (PyStr p) (PyAccountingMethod m) year_arg = Inl NotImplementedError)
   \<and> AccountingMethod_type_check (PyStr ''accounting_method'') (PyAccountingMethod FIFO)
       = Inr FIFO
   \<and> (Configuration_init fs path method year_arg = Inr c \<longrightarrow> accounting_method c = FIFO)"
proof (intro conjI impI)
  assume "m \<noteq> FIFO"
  then show "Configuration_init fs (PyStr p) (PyAccountingMethod m) year_arg
             = Inl NotImplementedError"
    by (simp add: Configuration_init_def)
next
  show "AccountingMethod_type_check (PyStr ''accounting_method'') (PyAccountingMethod FIFO)
        = Inr FIFO"
    by (rule AccountingMethod_type_check_FIFO)
next
  assume ok: "Configuration_init fs path method year_arg = Inr c"
  then obtain m' where
    chk: "AccountingMethod_type_check (PyStr ''accounting_method'') method = Inr m'"
    and acc: "accounting_method c = m'"
    unfolding Configuration_init_def
    by (auto split: sum.splits option.splits if_splits)
  from AccountingMethod_type_check_Inr [OF chk] acc
  show "accounting_method c = FIFO" by simp
qed

theorem Configuration_init_accounting_method_witness:
  "LIFO \<noteq> FIFO
   \<and> Configuration_init example_fs (PyStr ''config.json'') (PyAccountingMethod LIFO) PyNone
       = Inl NotImplementedError
   \<and> (\<exists>c. Configuration_init example_fs (PyStr ''config.json'') (PyAccountingMethod FIFO)
             (PyInt 2021) = Inr c \<and> accounting_method c = FIFO)"
proof -
  have ne: "LIFO \<noteq> FIFO" by simp
  have lifo: "Configuration_init example_fs (PyStr ''config.json'')
                (PyAccountingMethod LIFO) PyNone = Inl NotImplementedError"
    using Configuration_init_accounting_method
      [of LIFO example_fs "''config.json''" PyNone] ne by blast
  obtain c where ok: "Configuration_init example_fs (PyStr ''config.json'')
                        (PyAccountingMethod FIFO) (PyInt 2021) = Inr c"
    by (simp add: Configuration_init_def example_fs_def)
  from Configuration_init_accounting_method
    [of FIFO example_fs "''config.json''" "PyInt 2021" "PyStr ''config.json''"
        "PyAccountingMethod FIFO" c] ok
  have "accounting_method c = FIFO" by blast
  with ne lifo ok show ?thesis by blast
qed
section \<open>The lot matcher\<close>

lemma step_Inl:
  assumes "step s = Inl (it, out)"
  shows "out = gain_loss_set s @ [emitted s]"
    and "it = TaxableEventIterator \<Longrightarrow> taxable_event_iterator s = []"
    and "it = TaxableEventIterator \<Longrightarrow>
           AbstractTransaction.transaction_type (taxable_event s) = EARN
           \<or> taxable_event_amount s \<le> from_lot_amount s"
  using assms
  by (auto simp: step_def Let_def emitted_def GainLossSet_add_entry_def min_def
      split: if_splits sum.splits list.splits prod.splits elim!: py_next.elims)

lemma step_Inr:
  assumes "step s = Inr s'"
  shows "gain_loss_set s' = gain_loss_set s @ [emitted s]"
  using assms
  by (auto simp: step_def Let_def emitted_def GainLossSet_add_entry_def min_def
      split: if_splits sum.splits list.splits prod.splits elim!: py_next.elims)

lemma step_Inr_cases [consumes 1, case_names earn equal less greater]:
  assumes "step s = Inr s'"
  obtains
    e es where "AbstractTransaction.transaction_type (taxable_event s) = EARN"
      "taxable_event_iterator s = e # es"
      "s' = s\<lparr>gain_loss_set := gain_loss_set s @ [emitted s], taxable_event := e,
              taxable_event_amount := crypto_taxable_amount e,
              taxable_event_iterator := es\<rparr>"
  | e es l ls where "AbstractTransaction.transaction_type (taxable_event s) \<noteq> EARN"
      "taxable_event_amount s = from_lot_amount s"
      "taxable_event_iterator s = e # es" "from_lot_iterator s = l # ls"
      "s' = s\<lparr>gain_loss_set := gain_loss_set s @ [emitted s], taxable_event := e,
              taxable_event_amount := crypto_taxable_amount e,
              taxable_event_iterator := es,
              from_lot := l, from_lot_amount := crypto_in l, from_lot_iterator := ls\<rparr>"
  | e es where "AbstractTransaction.transaction_type (taxable_event s) \<noteq> EARN"
      "taxable_event_amount s < from_lot_amount s"
      "taxable_event_iterator s = e # es"
      "s' = s\<lparr>gain_loss_set := gain_loss_set s @ [emitted s],
              from_lot_amount := from_lot_amount s - taxable_event_amount s,
              taxable_event := e,
              taxable_event_amount := crypto_taxable_amount e,
              taxable_event_iterator := es\<rparr>"
  | l ls where "AbstractTransaction.transaction_type (taxable_event s) \<noteq> EARN"
      "from_lot_amount s < taxable_event_amount s"
      "from_lot_iterator s = l # ls"
      "s' = s\<lparr>gain_loss_set := gain_loss_set s @ [emitted s],
              taxable_event_amount := taxable_event_amount s - from_lot_amount s,
              from_lot := l, from_lot_amount := crypto_in l, from_lot_iterator := ls\<rparr>"
  using assms
  apply (simp add: step_def Let_def emitted_def GainLossSet_add_entry_def min_def
      split: if_splits sum.splits list.splits prod.splits)
     apply (auto elim!: py_next.elims)
  done

lemma fragment_sum_of_event_snoc:
  "fragment_sum_of_event (gls @ [g]) e =
     fragment_sum_of_event gls e
       + (if GainLoss.taxable_event g = e then GainLoss.crypto_amount g else 0)"
  by (simp add: fragment_sum_of_event_def)

lemma fragment_sum_of_lot_snoc:
  "fragment_sum_of_lot (gls @ [g]) l =
     fragment_sum_of_lot gls l
       + (if GainLoss.from_lot g = Some l then GainLoss.crypto_amount g else 0)"
  by (simp add: fragment_sum_of_lot_def)

lemma emitted_simps:
  "GainLoss.taxable_event (emitted s) = taxable_event s"
  "GainLoss.from_lot (emitted s) =
     (if AbstractTransaction.transaction_type (taxable_event s) = EARN then None
      else Some (from_lot s))"
  "GainLoss.crypto_amount (emitted s) =
     (if AbstractTransaction.transaction_type (taxable_event s) = EARN
      then taxable_event_amount s
      else min (taxable_event_amount s) (from_lot_amount s))"
  by (simp_all add: emitted_def)

lemma while_True_events:
  "while_True s = (TaxableEventIterator, out) \<Longrightarrow>
   distinct (taxable_event s # taxable_event_iterator s) \<Longrightarrow>
   fragment_sum_of_event out x
     = fragment_sum_of_event (gain_loss_set s) x
       + (if x = taxable_event s then taxable_event_amount s
          else if x \<in> set (taxable_event_iterator s) then crypto_taxable_amount x
          else 0)"
proof (induction s rule: while_True.induct)
  case (1 s)
  show ?case
  proof (cases "step s")
    case (Inl r)
    with "1.prems"(1) have st: "step s = Inl (TaxableEventIterator, out)"
      by (simp split: prod.splits)
    from step_Inl [OF st] show ?thesis
      by (auto simp: fragment_sum_of_event_snoc emitted_simps)
  next
    case (Inr s')
    with "1.prems"(1) have w: "while_True s' = (TaxableEventIterator, out)"
      by simp
    from Inr show ?thesis
    proof (cases rule: step_Inr_cases)
      case (earn e es)
      with "1.prems" have d: "distinct (taxable_event s' # taxable_event_iterator s')"
        by simp_all
      from "1.IH" [OF Inr w d] earn "1.prems" show ?thesis
        by (auto simp: fragment_sum_of_event_snoc emitted_simps)
    next
      case (equal e es l ls)
      with "1.prems" have d: "distinct (taxable_event s' # taxable_event_iterator s')"
        by simp_all
      from "1.IH" [OF Inr w d] equal "1.prems" show ?thesis
        by (auto simp: fragment_sum_of_event_snoc emitted_simps)
    next
      case (less e es)
      with "1.prems" have d: "distinct (taxable_event s' # taxable_event_iterator s')"
        by simp_all
      from "1.IH" [OF Inr w d] less "1.prems" show ?thesis
        by (auto simp: fragment_sum_of_event_snoc emitted_simps)
    next
      case (greater l ls)
      with "1.prems" have d: "distinct (taxable_event s' # taxable_event_iterator s')"
        by simp_all
      from "1.IH" [OF Inr w d] greater "1.prems" show ?thesis
        by (auto simp: fragment_sum_of_event_snoc emitted_simps)
    qed
  qed
qed

lemma while_True_lots:
  "while_True s = (it, out) \<Longrightarrow>
   distinct (from_lot s # from_lot_iterator s) \<Longrightarrow>
   0 \<le> from_lot_amount s \<Longrightarrow>
   \<forall>l \<in> set (from_lot_iterator s). 0 \<le> crypto_in l \<Longrightarrow>
   fragment_sum_of_lot out x
     \<le> fragment_sum_of_lot (gain_loss_set s) x
       + (if x = from_lot s then from_lot_amount s
          else if x \<in> set (from_lot_iterator s) then crypto_in x
          else 0)"
proof (induction s rule: while_True.induct)
  case (1 s)
  show ?case
  proof (cases "step s")
    case (Inl r)
    with "1.prems"(1) have st: "step s = Inl (it, out)"
      by (simp split: prod.splits)
    from step_Inl(1) [OF st] "1.prems"(2,3,4) show ?thesis
      by (auto simp: fragment_sum_of_lot_snoc emitted_simps)
  next
    case (Inr s')
    with "1.prems"(1) have w: "while_True s' = (it, out)"
      by simp
    from Inr show ?thesis
    proof (cases rule: step_Inr_cases)
      case (earn e es)
      with "1.prems" have d: "distinct (from_lot s' # from_lot_iterator s')"
        "0 \<le> from_lot_amount s'" "\<forall>l \<in> set (from_lot_iterator s'). 0 \<le> crypto_in l"
        by simp_all
      from "1.IH" [OF Inr w d] earn "1.prems" show ?thesis
        by (auto simp: fragment_sum_of_lot_snoc emitted_simps split: if_splits)
    next
      case (equal e es l ls)
      with "1.prems" have d: "distinct (from_lot s' # from_lot_iterator s')"
        "0 \<le> from_lot_amount s'" "\<forall>l \<in> set (from_lot_iterator s'). 0 \<le> crypto_in l"
        by simp_all
      from "1.IH" [OF Inr w d] equal "1.prems" show ?thesis
        by (auto simp: fragment_sum_of_lot_snoc emitted_simps split: if_splits)
    next
      case (less e es)
      with "1.prems" have d: "distinct (from_lot s' # from_lot_iterator s')"
        "0 \<le> from_lot_amount s'" "\<forall>l \<in> set (from_lot_iterator s'). 0 \<le> crypto_in l"
        by simp_all
      from "1.IH" [OF Inr w d] less "1.prems" show ?thesis
        by (auto simp: fragment_sum_of_lot_snoc emitted_simps split: if_splits)
    next
      case (greater l ls)
      with "1.prems" have d: "distinct (from_lot s' # from_lot_iterator s')"
        "0 \<le> from_lot_amount s'" "\<forall>l \<in> set (from_lot_iterator s'). 0 \<le> crypto_in l"
        by simp_all
      from "1.IH" [OF Inr w d] greater "1.prems" show ?thesis
        by (auto simp: fragment_sum_of_lot_snoc emitted_simps split: if_splits)
    qed
  qed
qed

lemma lot_total_nonneg: "\<forall>l \<in> set ls. 0 \<le> crypto_in l \<Longrightarrow> 0 \<le> lot_total ls"
  by (induction ls) (simp_all add: lot_total_def)

lemma while_True_covered:
  "while_True s = (TaxableEventIterator, out) \<Longrightarrow>
   0 \<le> from_lot_amount s \<Longrightarrow>
   \<forall>l \<in> set (from_lot_iterator s). 0 \<le> crypto_in l \<Longrightarrow>
   (if AbstractTransaction.transaction_type (taxable_event s) = EARN then 0
    else taxable_event_amount s) + taxable_total (taxable_event_iterator s)
   \<le> from_lot_amount s + lot_total (from_lot_iterator s)"
proof (induction s rule: while_True.induct)
  case (1 s)
  note nn = lot_total_nonneg [OF "1.prems"(3)]
  show ?case
  proof (cases "step s")
    case (Inl r)
    with "1.prems"(1) have st: "step s = Inl (TaxableEventIterator, out)"
      by (simp split: prod.splits)
    from step_Inl(2,3) [OF st] "1.prems"(2) nn show ?thesis
      by (auto simp: taxable_total_def)
  next
    case (Inr s')
    with "1.prems"(1) have w: "while_True s' = (TaxableEventIterator, out)"
      by simp
    from Inr show ?thesis
    proof (cases rule: step_Inr_cases)
      case (earn e es)
      with "1.prems" have d:
        "0 \<le> from_lot_amount s'" "\<forall>l \<in> set (from_lot_iterator s'). 0 \<le> crypto_in l"
        by simp_all
      from "1.IH" [OF Inr w d] earn show ?thesis
        by (auto simp: taxable_total_def lot_total_def split: if_splits)
    next
      case (equal e es l ls)
      with "1.prems" have d:
        "0 \<le> from_lot_amount s'" "\<forall>l \<in> set (from_lot_iterator s'). 0 \<le> crypto_in l"
        by simp_all
      from "1.IH" [OF Inr w d] equal show ?thesis
        by (auto simp: taxable_total_def lot_total_def split: if_splits)
    next
      case (less e es)
      with "1.prems" have d:
        "0 \<le> from_lot_amount s'" "\<forall>l \<in> set (from_lot_iterator s'). 0 \<le> crypto_in l"
        by simp_all
      from "1.IH" [OF Inr w d] less show ?thesis
        by (auto simp: taxable_total_def lot_total_def split: if_splits)
    next
      case (greater l ls)
      with "1.prems" have d:
        "0 \<le> from_lot_amount s'" "\<forall>l \<in> set (from_lot_iterator s'). 0 \<le> crypto_in l"
        by simp_all
      from "1.IH" [OF Inr w d] greater show ?thesis
        by (auto simp: taxable_total_def lot_total_def split: if_splits)
    qed
  qed
qed

lemma two_lots_matched:
  "create_gain_and_loss_set example_configuration two_lots [sell 3 8 100]
   = Inr [\<lparr>GainLoss.crypto_amount = 6, GainLoss.taxable_event = sell 3 8 100,
           GainLoss.from_lot = Some (buy 1 6 60)\<rparr>,
          \<lparr>GainLoss.crypto_amount = 2, GainLoss.taxable_event = sell 3 8 100,
           GainLoss.from_lot = Some (buy 2 6 90)\<rparr>]"
  by (simp add: create_gain_and_loss_set_def two_lots_def step_def
      except_StopIteration_def GainLossSet_add_entry_def sell_def buy_def)

lemma insufficient_total_raises:
  assumes nonneg: "\<forall>l \<in> set (in_transaction_set inp). 0 \<le> crypto_in l"
    and short: "lot_total (in_transaction_set inp) < taxable_total taxable_events"
  shows "create_gain_and_loss_set configuration inp taxable_events = Inl RP2ValueError"
proof (cases taxable_events)
  case Nil
  with short lot_total_nonneg [OF nonneg] show ?thesis
    by (simp add: taxable_total_def)
next
  case (Cons e es)
  note events = Cons
  show ?thesis
  proof (cases "in_transaction_set inp")
    case Nil
    with events show ?thesis
      by (simp add: create_gain_and_loss_set_def except_StopIteration_def)
  next
    case (Cons l ls)
    define s where "s = \<lparr>gain_loss_set = [], taxable_event = e,
                    taxable_event_amount = crypto_taxable_amount e,
                    from_lot = l, from_lot_amount = crypto_in l,
                    taxable_event_iterator = es, from_lot_iterator = ls\<rparr>"
    obtain it out where w: "while_True s = (it, out)"
      by (cases "while_True s")
    have "it \<noteq> TaxableEventIterator"
    proof
      assume "it = TaxableEventIterator"
      with w have "while_True s = (TaxableEventIterator, out)" by simp
      from while_True_covered [OF this] nonneg Cons
      have "(if AbstractTransaction.transaction_type e = EARN then 0
             else crypto_taxable_amount e) + taxable_total es
            \<le> crypto_in l + lot_total ls"
        by (simp add: s_def split: if_splits)
      with short events Cons show False
        by (simp add: taxable_total_def lot_total_def split: if_splits)
    qed
    then have "it = FromLotIterator" by (cases it) simp_all
    with w events Cons show ?thesis
      by (simp add: create_gain_and_loss_set_def except_StopIteration_def s_def)
  qed
qed

lemma passes_while_True: "passes n s = Inr s' \<Longrightarrow> while_True s = while_True s'"
proof (induction n arbitrary: s)
  case 0
  then show ?case by simp
next
  case (Suc n)
  then obtain s1 where s1: "step s = Inr s1" and rest: "passes n s1 = Inr s'"
    by (cases "step s") simp_all
  from s1 have "while_True s = while_True s1"
    by (subst while_True.simps) simp
  with Suc.IH [OF rest] show ?case by simp
qed

lemma lots_exhausted_raises:
  assumes "lots_exhausted s"
  shows "except_StopIteration (while_True s) = Inl RP2ValueError"
proof -
  from assms obtain out where "step s = Inl (FromLotIterator, out)"
    by (cases "taxable_event_iterator s")
       (auto simp: lots_exhausted_def step_def)
  then show ?thesis
    by (subst while_True.simps) (simp add: except_StopIteration_def)
qed

lemma first_pass_result:
  "first_pass inp taxable_events = Some s \<Longrightarrow>
   create_gain_and_loss_set configuration inp taxable_events
   = except_StopIteration (while_True s)"
  by (auto simp: first_pass_def create_gain_and_loss_set_def split: list.splits)

lemma exhausted_raises:
  assumes "first_pass inp taxable_events = Some s0" "passes n s0 = Inr s" "lots_exhausted s"
  shows "create_gain_and_loss_set configuration inp taxable_events = Inl RP2ValueError"
  using first_pass_result [OF assms(1)] passes_while_True [OF assms(2)]
    lots_exhausted_raises [OF assms(3)] by simp

lemma no_lots_raises:
  "taxable_events \<noteq> [] \<Longrightarrow> in_transaction_set inp = [] \<Longrightarrow>
   create_gain_and_loss_set configuration inp taxable_events = Inl RP2ValueError"
  by (cases taxable_events)
     (simp_all add: create_gain_and_loss_set_def except_StopIteration_def)

text \<open>
  Claim C1.  \<^verbatim>\<open>_create_gain_and_loss_set\<close> raises \<open>RP2ValueError\<close>, instead of
  returning a gain/loss set, whenever the lots run out while a taxable event that needs
  a lot still has an unallocated amount: when the loop reaches a pass in which the
  event is not \<open>EARN\<close>, no lot follows the current one, and the event's remainder
  exceeds that of the lot or equals it with further events to come; when there are
  taxable events and no lot at all; and, in terms of the input
  alone, when the total quantity of the lots (none of them negative) is less than the
  total taxable quantity of the events that are not \<open>EARN\<close>.
\<close>

theorem create_gain_and_loss_set_insufficient:
  "(first_pass inp taxable_events = Some s0 \<and> passes n s0 = Inr s \<and> lots_exhausted s
      \<longrightarrow> create_gain_and_loss_set configuration inp taxable_events = Inl RP2ValueError)
   \<and> (taxable_events \<noteq> [] \<and> in_transaction_set inp = []
      \<longrightarrow> create_gain_and_loss_set configuration inp taxable_events = Inl RP2ValueError)
   \<and> ((\<forall>l \<in> set (in_transaction_set inp). 0 \<le> crypto_in l)
       \<and> lot_total (in_transaction_set inp) < taxable_total taxable_events
      \<longrightarrow> create_gain_and_loss_set configuration inp taxable_events = Inl RP2ValueError)"
  using exhausted_raises [of inp taxable_events s0 n s configuration]
    no_lots_raises [of taxable_events inp configuration]
    insufficient_total_raises [of inp taxable_events configuration]
  by blast

theorem create_gain_and_loss_set_insufficient_witness:
  "in_transaction_set five_against_seven = [buy 1 5 50]
   \<and> 0 \<le> crypto_in (buy 1 5 50)
   \<and> lot_total (in_transaction_set five_against_seven) < taxable_total [sell 2 7 70]
   \<and> (\<exists>s. first_pass five_against_seven [sell 2 7 70] = Some s
         \<and> passes 0 s = Inr s \<and> lots_exhausted s)
   \<and> create_gain_and_loss_set example_configuration five_against_seven [sell 2 7 70]
       = Inl RP2ValueError"
proof -
  have h1: "\<forall>l \<in> set (in_transaction_set five_against_seven). 0 \<le> crypto_in l"
    by (simp add: five_against_seven_def buy_def)
  have h2: "lot_total (in_transaction_set five_against_seven) < taxable_total [sell 2 7 70]"
    by (simp add: five_against_seven_def buy_def sell_def lot_total_def taxable_total_def)
  have c: "in_transaction_set five_against_seven = [buy 1 5 50]"
    "0 \<le> crypto_in (buy 1 5 50)"
    by (simp_all add: five_against_seven_def buy_def)
  obtain s where s: "first_pass five_against_seven [sell 2 7 70] = Some s"
    by (simp add: first_pass_def five_against_seven_def)
  have p: "passes 0 s = Inr s" by simp
  have x: "lots_exhausted s"
    using s by (auto simp: first_pass_def five_against_seven_def lots_exhausted_def
        sell_def buy_def)
  from create_gain_and_loss_set_insufficient
    [of five_against_seven "[sell 2 7 70]" s 0 s example_configuration] s p x
  have "create_gain_and_loss_set example_configuration five_against_seven [sell 2 7 70]
       = Inl RP2ValueError"
    by blast
  with c h2 s p x show ?thesis by blast
qed

text \<open>
  Claim C2.  \<^verbatim>\<open>_create_gain_and_loss_set\<close> either fails with \<open>RP2ValueError\<close> or
  returns a gain/loss set in which, for every taxable event, the fragment amounts of
  the records that reference it add up to its taxable crypto amount exactly, and, for
  every lot, the fragment amounts drawn from it add up to at most its \<open>crypto_in\<close>.
  The taxable events are pairwise different and so are the lots (they are the entries
  of transaction sets), and no lot has a negative quantity.
\<close>

theorem create_gain_and_loss_set_allocation:
  assumes events: "distinct taxable_events"
    and lots: "distinct (in_transaction_set inp)"
    and nonneg: "\<forall>l \<in> set (in_transaction_set inp). 0 \<le> crypto_in l"
  shows "case create_gain_and_loss_set configuration inp taxable_events of
           Inl err \<Rightarrow> err = RP2ValueError
         | Inr gls \<Rightarrow>
             (\<forall>e \<in> set taxable_events.
                fragment_sum_of_event gls e = crypto_taxable_amount e)
             \<and> (\<forall>l \<in> set (in_transaction_set inp).
                  fragment_sum_of_lot gls l \<le> crypto_in l)"
proof (cases taxable_events)
  case Nil
  with nonneg show ?thesis
    by (simp add: create_gain_and_loss_set_def except_StopIteration_def
        fragment_sum_of_lot_def)
next
  case (Cons e es)
  note evs = Cons
  show ?thesis
  proof (cases "in_transaction_set inp")
    case Nil
    with evs show ?thesis
      by (simp add: create_gain_and_loss_set_def except_StopIteration_def)
  next
    case (Cons l ls)
    define s where "s = \<lparr>gain_loss_set = [], taxable_event = e,
                    taxable_event_amount = crypto_taxable_amount e,
                    from_lot = l, from_lot_amount = crypto_in l,
                    taxable_event_iterator = es, from_lot_iterator = ls\<rparr>"
    obtain it out where w: "while_True s = (it, out)"
      by (cases "while_True s")
    have res: "create_gain_and_loss_set configuration inp taxable_events
               = except_StopIteration (it, out)"
      using w evs Cons by (simp add: create_gain_and_loss_set_def s_def)
    show ?thesis
    proof (cases it)
      case FromLotIterator
      with res show ?thesis by (simp add: except_StopIteration_def)
    next
      case TaxableEventIterator
      with w have w': "while_True s = (TaxableEventIterator, out)" by simp
      have d1: "distinct (taxable_event s # taxable_event_iterator s)"
        using events evs by (simp add: s_def)
      have d2: "distinct (from_lot s # from_lot_iterator s)"
        and n1: "0 \<le> from_lot_amount s"
        and n2: "\<forall>l \<in> set (from_lot_iterator s). 0 \<le> crypto_in l"
        using lots nonneg Cons by (simp_all add: s_def)
      have ev: "fragment_sum_of_event out x = crypto_taxable_amount x"
        if "x \<in> set taxable_events" for x
        using while_True_events [OF w' d1, of x] that evs
        by (auto simp: s_def fragment_sum_of_event_def split: if_splits)
      have lt: "fragment_sum_of_lot out x \<le> crypto_in x"
        if "x \<in> set (in_transaction_set inp)" for x
        using while_True_lots [OF w d2 n1 n2, of x] that Cons
        by (auto simp: s_def fragment_sum_of_lot_def split: if_splits)
      from res TaxableEventIterator ev lt show ?thesis
        by (simp add: except_StopIteration_def)
    qed
  qed
qed

theorem create_gain_and_loss_set_allocation_witness:
  "distinct [sell 3 8 100] \<and> distinct (in_transaction_set two_lots)
   \<and> in_transaction_set two_lots = [buy 1 6 60, buy 2 6 90]
   \<and> 0 \<le> crypto_in (buy 1 6 60) \<and> 0 \<le> crypto_in (buy 2 6 90)
   \<and> (\<exists>gls. create_gain_and_loss_set example_configuration two_lots [sell 3 8 100]
              = Inr gls
        \<and> fragment_sum_of_event gls (sell 3 8 100) = 8
        \<and> fragment_sum_of_lot gls (buy 1 6 60) \<le> 6
        \<and> fragment_sum_of_lot gls (buy 2 6 90) \<le> 6)"
proof -
  have h1: "distinct [sell 3 8 100]" by simp
  have h2: "distinct (in_transaction_set two_lots)"
    by (simp add: two_lots_def buy_def)
  have h3: "\<forall>l \<in> set (in_transaction_set two_lots). 0 \<le> crypto_in l"
    by (simp add: two_lots_def buy_def)
  from create_gain_and_loss_set_allocation [OF h1 h2 h3, of example_configuration]
  show ?thesis
    using h2
    by (simp add: two_lots_matched) (simp add: two_lots_def buy_def sell_def)
qed

section \<open>One pass of the matcher\<close>

lemma records_of_event_snoc:
  "records_of_event (gls @ [g]) e =
     records_of_event gls e @ (if GainLoss.taxable_event g = e then [g] else [])"
  by (simp add: records_of_event_def)

text \<open>
  Claim C3.  One pass of the loop on an event that is not \<open>EARN\<close>, with positive
  remainders and positive quantities ahead.  If the remainders are equal, one record
  for the common amount is added and both pointers advance; if the event's remainder
  is smaller, one record for it is added against the current lot, the lot's remainder
  is reduced by it and only the event pointer advances; if the lot's remainder is
  smaller, one record for it is added, the event's remainder is reduced by it and only
  the lot pointer advances.  The record has a positive amount and both remainders
  are positive at the start of the next pass.  When the pointer that has to advance
  is at its end the pass leaves the loop, after adding the same record.
\<close>

theorem step_three_branches:
  assumes kind: "AbstractTransaction.transaction_type (taxable_event s) \<noteq> EARN"
    and pos: "0 < taxable_event_amount s" "0 < from_lot_amount s"
    and events: "\<forall>e \<in> set (taxable_event_iterator s). 0 < crypto_taxable_amount e"
    and lots: "\<forall>l \<in> set (from_lot_iterator s). 0 < crypto_in l"
  shows "case step s of
           Inr s' \<Rightarrow>
             (taxable_event_amount s = from_lot_amount s \<longrightarrow>
                gain_loss_set s' = gain_loss_set s @
                  [\<lparr>GainLoss.crypto_amount = taxable_event_amount s,
                    GainLoss.taxable_event = taxable_event s,
                    GainLoss.from_lot = Some (from_lot s)\<rparr>]
                \<and> advances_event s s' \<and> advances_lot s s')
             \<and> (taxable_event_amount s < from_lot_amount s \<longrightarrow>
                gain_loss_set s' = gain_loss_set s @
                  [\<lparr>GainLoss.crypto_amount = taxable_event_amount s,
                    GainLoss.taxable_event = taxable_event s,
                    GainLoss.from_lot = Some (from_lot s)\<rparr>]
                \<and> advances_event s s' \<and> keeps_lot s s'
                \<and> from_lot_amount s' = from_lot_amount s - taxable_event_amount s)
             \<and> (from_lot_amount s < taxable_event_amount s \<longrightarrow>
                gain_loss_set s' = gain_loss_set s @
                  [\<lparr>GainLoss.crypto_amount = from_lot_amount s,
                    GainLoss.taxable_event = taxable_event s,
                    GainLoss.from_lot = Some (from_lot s)\<rparr>]
                \<and> keeps_event s s' \<and> advances_lot s s'
                \<and> taxable_event_amount s' = taxable_event_amount s - from_lot_amount s)
             \<and> 0 < GainLoss.crypto_amount (last (gain_loss_set s'))
             \<and> 0 < taxable_event_amount s' \<and> 0 < from_lot_amount s'
         | Inl (it, out) \<Rightarrow>
             out = gain_loss_set s @
               [\<lparr>GainLoss.crypto_amount = min (taxable_event_amount s) (from_lot_amount s),
                 GainLoss.taxable_event = taxable_event s,
                 GainLoss.from_lot = Some (from_lot s)\<rparr>]
             \<and> 0 < GainLoss.crypto_amount (last out)
             \<and> (it = TaxableEventIterator \<longrightarrow>
                  taxable_event_amount s \<le> from_lot_amount s
                  \<and> taxable_event_iterator s = [])
             \<and> (it = FromLotIterator \<longrightarrow>
                  from_lot_amount s \<le> taxable_event_amount s
                  \<and> from_lot_iterator s = []
                  \<and> (taxable_event_amount s = from_lot_amount s \<longrightarrow>
                       taxable_event_iterator s \<noteq> []))"
proof (cases "step s")
  case (Inl r)
  obtain it out where r: "r = (it, out)" by (cases r)
  with Inl kind pos show ?thesis
    by (auto simp: step_def Let_def GainLossSet_add_entry_def min_def
        split: if_splits sum.splits prod.splits elim!: py_next.elims)
next
  case (Inr s')
  from Inr show ?thesis
  proof (cases rule: step_Inr_cases)
    case (earn e es)
    with kind show ?thesis by simp
  next
    case (equal e es l ls)
    with Inr kind pos events lots show ?thesis
      by (simp add: advances_event_def advances_lot_def emitted_def)
  next
    case (less e es)
    with Inr kind pos events lots show ?thesis
      by (simp add: advances_event_def keeps_lot_def emitted_def)
  next
    case (greater l ls)
    with Inr kind pos events lots show ?thesis
      by (simp add: keeps_event_def advances_lot_def emitted_def)
  qed
qed

lemma while_True_lotless:
  "while_True s = (TaxableEventIterator, out) \<Longrightarrow>
   distinct (taxable_event s # taxable_event_iterator s) \<Longrightarrow>
   AbstractTransaction.transaction_type x = EARN \<Longrightarrow>
   records_of_event out x
     = records_of_event (gain_loss_set s) x
       @ (if x = taxable_event s
          then [\<lparr>GainLoss.crypto_amount = taxable_event_amount s, GainLoss.taxable_event = x,
                 GainLoss.from_lot = None\<rparr>]
          else if x \<in> set (taxable_event_iterator s) then [lotless_record x]
          else [])"
proof (induction s rule: while_True.induct)
  case (1 s)
  show ?case
  proof (cases "step s")
    case (Inl r)
    with "1.prems"(1) have st: "step s = Inl (TaxableEventIterator, out)"
      by (simp split: prod.splits)
    from step_Inl [OF st] "1.prems"(3) show ?thesis
      by (auto simp: records_of_event_snoc emitted_def)
  next
    case (Inr s')
    with "1.prems"(1) have w: "while_True s' = (TaxableEventIterator, out)"
      by simp
    from Inr show ?thesis
    proof (cases rule: step_Inr_cases)
      case (earn e es)
      with "1.prems" have d: "distinct (taxable_event s' # taxable_event_iterator s')"
        by simp_all
      from "1.IH" [OF Inr w d "1.prems"(3)] earn "1.prems" show ?thesis
        by (auto simp: records_of_event_snoc emitted_def lotless_record_def)
    next
      case (equal e es l ls)
      with "1.prems" have d: "distinct (taxable_event s' # taxable_event_iterator s')"
        by simp_all
      from "1.IH" [OF Inr w d "1.prems"(3)] equal "1.prems" show ?thesis
        by (auto simp: records_of_event_snoc emitted_def lotless_record_def)
    next
      case (less e es)
      with "1.prems" have d: "distinct (taxable_event s' # taxable_event_iterator s')"
        by simp_all
      from "1.IH" [OF Inr w d "1.prems"(3)] less "1.prems" show ?thesis
        by (auto simp: records_of_event_snoc emitted_def lotless_record_def)
    next
      case (greater l ls)
      with "1.prems" have d: "distinct (taxable_event s' # taxable_event_iterator s')"
        by simp_all
      from "1.IH" [OF Inr w d "1.prems"(3)] greater "1.prems" show ?thesis
        by (auto simp: records_of_event_snoc emitted_def lotless_record_def)
    qed
  qed
qed

lemma example_state_hyps:
  "AbstractTransaction.transaction_type (taxable_event (example_state a b)) \<noteq> EARN"
  "\<forall>e \<in> set (taxable_event_iterator (example_state a b)). 0 < crypto_taxable_amount e"
  "\<forall>l \<in> set (from_lot_iterator (example_state a b)). 0 < crypto_in l"
  by (simp_all add: example_state_def sell_def buy_def)

theorem step_three_branches_witness:
  "AbstractTransaction.transaction_type (taxable_event (example_state 8 6)) \<noteq> EARN
   \<and> 0 < taxable_event_amount (example_state 8 6)
   \<and> 0 < from_lot_amount (example_state 8 6)
   \<and> taxable_event_iterator (example_state 8 6) = [sell 4 1 10]
   \<and> 0 < crypto_taxable_amount (sell 4 1 10)
   \<and> from_lot_iterator (example_state 8 6) = [buy 2 6 90]
   \<and> 0 < crypto_in (buy 2 6 90)
   \<and> (\<exists>s'. step (example_state 8 6) = Inr s'
         \<and> gain_loss_set s'
             = [\<lparr>GainLoss.crypto_amount = 6, GainLoss.taxable_event = sell 3 8 100,
                 GainLoss.from_lot = Some (buy 1 6 60)\<rparr>]
         \<and> keeps_event (example_state 8 6) s' \<and> advances_lot (example_state 8 6) s'
         \<and> taxable_event_amount s' = 2 \<and> from_lot_amount s' = 6)
   \<and> (\<exists>s'. step (example_state 2 6) = Inr s'
         \<and> advances_event (example_state 2 6) s' \<and> keeps_lot (example_state 2 6) s'
         \<and> taxable_event_amount s' = 1 \<and> from_lot_amount s' = 4)
   \<and> (\<exists>s'. step (example_state 6 6) = Inr s'
         \<and> advances_event (example_state 6 6) s' \<and> advances_lot (example_state 6 6) s'
         \<and> taxable_event_amount s' = 1 \<and> from_lot_amount s' = 6)"
proof -
  have p86: "0 < taxable_event_amount (example_state 8 6)"
    "0 < from_lot_amount (example_state 8 6)"
    and p26: "0 < taxable_event_amount (example_state 2 6)"
    "0 < from_lot_amount (example_state 2 6)"
    and p66: "0 < taxable_event_amount (example_state 6 6)"
    "0 < from_lot_amount (example_state 6 6)"
    by (simp_all add: example_state_def)
  obtain s1 where s1: "step (example_state 8 6) = Inr s1"
    by (simp add: step_def example_state_def sell_def)
  obtain s2 where s2: "step (example_state 2 6) = Inr s2"
    by (simp add: step_def example_state_def sell_def)
  obtain s3 where s3: "step (example_state 6 6) = Inr s3"
    by (simp add: step_def example_state_def sell_def)
  have a1: "from_lot_amount s1 = 6" "from_lot_amount s3 = 6"
    "taxable_event_amount s2 = 1" "taxable_event_amount s3 = 1"
    using s1 s2 s3 by (auto simp: step_def example_state_def sell_def buy_def)
  from step_three_branches [OF example_state_hyps(1) p86 example_state_hyps(2,3)] s1
  have c1: "gain_loss_set s1
             = [\<lparr>GainLoss.crypto_amount = 6, GainLoss.taxable_event = sell 3 8 100,
                 GainLoss.from_lot = Some (buy 1 6 60)\<rparr>]
         \<and> keeps_event (example_state 8 6) s1 \<and> advances_lot (example_state 8 6) s1
         \<and> taxable_event_amount s1 = 2"
    by (simp add: example_state_def)
  from step_three_branches [OF example_state_hyps(1) p26 example_state_hyps(2,3)] s2
  have c2: "advances_event (example_state 2 6) s2 \<and> keeps_lot (example_state 2 6) s2
         \<and> from_lot_amount s2 = 4"
    by (simp add: example_state_def)
  from step_three_branches [OF example_state_hyps(1) p66 example_state_hyps(2,3)] s3
  have c3: "advances_event (example_state 6 6) s3 \<and> advances_lot (example_state 6 6) s3"
    by (simp add: example_state_def)
  have it: "taxable_event_iterator (example_state 8 6) = [sell 4 1 10]"
    "0 < crypto_taxable_amount (sell 4 1 10)"
    "from_lot_iterator (example_state 8 6) = [buy 2 6 90]"
    "0 < crypto_in (buy 2 6 90)"
    by (simp_all add: example_state_def sell_def buy_def)
  from example_state_hyps(1) [of 8 6] it p86 s1 s2 s3 a1 c1 c2 c3 show ?thesis
    by blast
qed

text \<open>
  Claim C4.  A pass on an \<open>EARN\<close> event adds one record with the event's whole
  remaining amount and no lot, advances the event pointer and leaves the lot, its
  remainder and the lot iterator as they were: the test comes before any comparison
  with the lot.  In a gain/loss set that the matcher returns, an \<open>EARN\<close> event is
  referenced by exactly one record, its lotless record, which carries the event's
  taxable amount, has zero cost basis and is not long-term.
\<close>

theorem lotless_event:
  "(AbstractTransaction.transaction_type (taxable_event s) = EARN \<longrightarrow>
      (case step s of
         Inr s' \<Rightarrow>
           gain_loss_set s' = gain_loss_set s @
             [\<lparr>GainLoss.crypto_amount = taxable_event_amount s,
               GainLoss.taxable_event = taxable_event s, GainLoss.from_lot = None\<rparr>]
           \<and> advances_event s s' \<and> keeps_lot s s'
           \<and> from_lot_amount s' = from_lot_amount s
       | Inl (it, out) \<Rightarrow>
           out = gain_loss_set s @
             [\<lparr>GainLoss.crypto_amount = taxable_event_amount s,
               GainLoss.taxable_event = taxable_event s, GainLoss.from_lot = None\<rparr>]
           \<and> it = TaxableEventIterator \<and> taxable_event_iterator s = []))
   \<and> (create_gain_and_loss_set configuration inp taxable_events = Inr gls
        \<and> distinct taxable_events \<and> e \<in> set taxable_events
        \<and> AbstractTransaction.transaction_type e = EARN \<longrightarrow>
      records_of_event gls e = [lotless_record e])
   \<and> GainLoss.crypto_amount (lotless_record e) = crypto_taxable_amount e
   \<and> GainLoss.from_lot (lotless_record e) = None
   \<and> usd_cost_basis (lotless_record e) = ZERO
   \<and> \<not> is_long_term_capital_gains (lotless_record e)"
proof (intro conjI impI)
  assume kind: "AbstractTransaction.transaction_type (taxable_event s) = EARN"
  show "case step s of
         Inr s' \<Rightarrow>
           gain_loss_set s' = gain_loss_set s @
             [\<lparr>GainLoss.crypto_amount = taxable_event_amount s,
               GainLoss.taxable_event = taxable_event s, GainLoss.from_lot = None\<rparr>]
           \<and> advances_event s s' \<and> keeps_lot s s'
           \<and> from_lot_amount s' = from_lot_amount s
       | Inl (it, out) \<Rightarrow>
           out = gain_loss_set s @
             [\<lparr>GainLoss.crypto_amount = taxable_event_amount s,
               GainLoss.taxable_event = taxable_event s, GainLoss.from_lot = None\<rparr>]
           \<and> it = TaxableEventIterator \<and> taxable_event_iterator s = []"
    using kind
    by (cases "taxable_event_iterator s")
       (simp_all add: step_def GainLossSet_add_entry_def advances_event_def keeps_lot_def)
next
  assume a: "create_gain_and_loss_set configuration inp taxable_events = Inr gls
        \<and> distinct taxable_events \<and> e \<in> set taxable_events
        \<and> AbstractTransaction.transaction_type e = EARN"
  then obtain e0 es where evs: "taxable_events = e0 # es"
    by (cases taxable_events) auto
  from a evs obtain l ls where ins: "in_transaction_set inp = l # ls"
    by (cases "in_transaction_set inp")
       (auto simp: create_gain_and_loss_set_def except_StopIteration_def)
  define s0 where "s0 = \<lparr>gain_loss_set = [], taxable_event = e0,
                    taxable_event_amount = crypto_taxable_amount e0,
                    from_lot = l, from_lot_amount = crypto_in l,
                    taxable_event_iterator = es, from_lot_iterator = ls\<rparr>"
  from a evs ins have w: "while_True s0 = (TaxableEventIterator, gls)"
    by (cases "while_True s0"; cases "fst (while_True s0)")
       (auto simp: create_gain_and_loss_set_def except_StopIteration_def s0_def
          split: if_splits)
  have d: "distinct (taxable_event s0 # taxable_event_iterator s0)"
    using a evs by (simp add: s0_def)
  from while_True_lotless [OF w d, of e] a evs
  show "records_of_event gls e = [lotless_record e]"
    by (auto simp: s0_def records_of_event_def lotless_record_def split: if_splits)
qed (simp_all add: lotless_record_def usd_cost_basis_def is_long_term_capital_gains_def)

lemma earn_then_sell_events:
  "create_taxable_event_set example_configuration earn_then_sell
   = [AbstractTransaction.truncate (earn 2 1 10), sell 3 7 100]"
  by (simp add: create_taxable_event_set_def create_taxable_event_set_loops_def
      earn_then_sell_def earn_def buy_def sell_def AbstractTransaction.truncate_def)

lemma earn_then_sell_matched:
  "create_gain_and_loss_set example_configuration earn_then_sell
     [AbstractTransaction.truncate (earn 2 1 10), sell 3 7 100]
   = Inr [lotless_record (AbstractTransaction.truncate (earn 2 1 10)),
          \<lparr>GainLoss.crypto_amount = 6, GainLoss.taxable_event = sell 3 7 100,
           GainLoss.from_lot = Some (buy 1 6 60)\<rparr>,
          \<lparr>GainLoss.crypto_amount = 1, GainLoss.taxable_event = sell 3 7 100,
           GainLoss.from_lot = Some (earn 2 1 10)\<rparr>]"
  by (simp add: create_gain_and_loss_set_def earn_then_sell_def step_def
      except_StopIteration_def GainLossSet_add_entry_def sell_def buy_def earn_def
      lotless_record_def AbstractTransaction.truncate_def)

theorem lotless_event_witness:
  "AbstractTransaction.transaction_type (taxable_event example_earn_state) = EARN
   \<and> (\<exists>s'. step example_earn_state = Inr s'
         \<and> gain_loss_set s'
            = [\<lparr>GainLoss.crypto_amount = 1,
                GainLoss.taxable_event = AbstractTransaction.truncate (earn 3 1 10),
                GainLoss.from_lot = None\<rparr>]
         \<and> from_lot s' = buy 1 6 60 \<and> from_lot_amount s' = 4
         \<and> from_lot_iterator s' = [buy 2 6 90])
   \<and> distinct [AbstractTransaction.truncate (earn 2 1 10), sell 3 7 100]
   \<and> (\<exists>gls. create_gain_and_loss_set example_configuration earn_then_sell
               [AbstractTransaction.truncate (earn 2 1 10), sell 3 7 100] = Inr gls
         \<and> records_of_event gls (AbstractTransaction.truncate (earn 2 1 10))
            = [lotless_record (AbstractTransaction.truncate (earn 2 1 10))])"
proof -
  let ?e = "AbstractTransaction.truncate (earn 2 1 10)"
  let ?es = "[?e, sell 3 7 100]"
  have k: "AbstractTransaction.transaction_type (taxable_event example_earn_state) = EARN"
    by (simp add: example_earn_state_def earn_def AbstractTransaction.truncate_def)
  have d: "distinct ?es"
    by (simp add: earn_def sell_def AbstractTransaction.truncate_def)
  have ke: "AbstractTransaction.transaction_type ?e = EARN"
    by (simp add: earn_def AbstractTransaction.truncate_def)
  obtain s1 where s1: "step example_earn_state = Inr s1"
    by (simp add: step_def example_earn_state_def earn_def AbstractTransaction.truncate_def)
  note inst = lotless_event [of example_earn_state example_configuration earn_then_sell
      "?es" _ "?e"]
  from inst k s1
  have c1: "gain_loss_set s1
            = [\<lparr>GainLoss.crypto_amount = 1,
                GainLoss.taxable_event = AbstractTransaction.truncate (earn 3 1 10),
                GainLoss.from_lot = None\<rparr>]
         \<and> from_lot s1 = buy 1 6 60 \<and> from_lot_amount s1 = 4
         \<and> from_lot_iterator s1 = [buy 2 6 90]"
    by (simp add: keeps_lot_def) (simp add: example_earn_state_def)
  from inst earn_then_sell_matched d ke
  have c2: "records_of_event
              [lotless_record ?e,
               \<lparr>GainLoss.crypto_amount = 6, GainLoss.taxable_event = sell 3 7 100,
                GainLoss.from_lot = Some (buy 1 6 60)\<rparr>,
               \<lparr>GainLoss.crypto_amount = 1, GainLoss.taxable_event = sell 3 7 100,
                GainLoss.from_lot = Some (earn 2 1 10)\<rparr>] ?e
            = [lotless_record ?e]"
    by simp
  from k s1 c1 d earn_then_sell_matched c2 show ?thesis
    by simp
qed

section \<open>The taxable event set\<close>

lemma mset_add_entry: "mset (add_entry xs e) = add_mset e (mset xs)"
  by (induction xs) simp_all

lemma set_add_entry: "set (add_entry xs e) = insert e (set xs)"
  by (induction xs) auto

lemma sorted_add_entry:
  "sorted (map (\<lambda>t. instant (timestamp t)) xs) \<Longrightarrow>
   sorted (map (\<lambda>t. instant (timestamp t)) (add_entry xs e))"
  by (induction xs) (auto simp: set_add_entry)

lemma for_entry_in_input: "input_data (for_entry_in ts s) = input_data s"
  by (induction ts arbitrary: s) simp_all

lemma for_entry_in_mset:
  "mset (taxable_event_set (for_entry_in ts s))
   = mset (taxable_event_set s) + mset (filter is_taxable ts)"
  by (induction ts arbitrary: s) (simp_all add: mset_add_entry)

lemma for_entry_in_sorted:
  "sorted (map (\<lambda>t. instant (timestamp t)) (taxable_event_set s)) \<Longrightarrow>
   sorted (map (\<lambda>t. instant (timestamp t)) (taxable_event_set (for_entry_in ts s)))"
  by (induction ts arbitrary: s) (simp_all add: sorted_add_entry)

text \<open>
  Claim C5.  The taxable event set holds exactly the transactions of the three input
  collections whose \<open>is_taxable\<close> is true, each as often as it occurs there; it is
  in chronological order; and the loops leave the input as it was.
\<close>

theorem create_taxable_event_set_filter_merge:
  "mset (create_taxable_event_set configuration inp)
     = mset (filter is_taxable
         (map AbstractTransaction.truncate (in_transaction_set inp)
          @ out_transaction_set inp @ intra_transaction_set inp))
   \<and> sorted (map (\<lambda>t. instant (timestamp t)) (create_taxable_event_set configuration inp))
   \<and> input_data (create_taxable_event_set_loops inp) = inp"
  by (simp add: create_taxable_event_set_def create_taxable_event_set_loops_def Let_def
      for_entry_in_input for_entry_in_mset for_entry_in_sorted)

theorem create_taxable_event_set_filter_merge_witness:
  "create_taxable_event_set example_configuration earn_then_sell
     = [AbstractTransaction.truncate (earn 2 1 10), sell 3 7 100]
   \<and> mset [AbstractTransaction.truncate (earn 2 1 10), sell 3 7 100]
       = mset (filter is_taxable
           (map AbstractTransaction.truncate (in_transaction_set earn_then_sell)
            @ out_transaction_set earn_then_sell @ intra_transaction_set earn_then_sell))
   \<and> input_data (create_taxable_event_set_loops earn_then_sell) = earn_then_sell"
  using create_taxable_event_set_filter_merge [of example_configuration earn_then_sell]
  by (simp add: earn_then_sell_events)

section \<open>The consistency verifier\<close>

lemma running_sum_eq: "running_sum f acc xs = acc + sum_list (map f xs)"
  by (induction xs arbitrary: acc) (simp_all add: add.assoc)

lemma cost_basis_loop_walk:
  "\<forall>l \<in> set lots. crypto_in l \<noteq> 0 \<Longrightarrow>
   \<exists>t. cost_basis_loop sold tot cost lots = Inr (t, cost + walk_lots (sold - tot) lots)"
proof (induction lots arbitrary: tot cost)
  case Nil
  show ?case by simp
next
  case (Cons l ls)
  show ?case
  proof (cases "tot + crypto_in l > sold")
    case True
    with Cons.prems show ?thesis by (simp add: Let_def)
  next
    case False
    from Cons.prems have "\<forall>l \<in> set ls. crypto_in l \<noteq> 0" by simp
    from Cons.IH [OF this, of "tot + crypto_in l" "cost + usd_in_with_fee l"]
    obtain t where "cost_basis_loop sold (tot + crypto_in l) (cost + usd_in_with_fee l) ls
       = Inr (t, cost + usd_in_with_fee l + walk_lots (sold - (tot + crypto_in l)) ls)"
      by blast
    with False show ?thesis
      by (simp add: algebra_simps)
  qed
qed

lemma verify_computation_eq:
  assumes "\<forall>l \<in> set (in_transaction_set inp). crypto_in l \<noteq> 0"
  shows "verify_computation inp a b c d =
     (if a \<noteq> crypto_taxable_total inp then Inl (Exception CryptoTaxableAmount)
      else if b \<noteq> usd_taxable_total inp then Inl (Exception UsdTaxableAmount)
      else if c \<noteq> walked_cost_basis inp then Inl (Exception CostBasis)
      else if d \<noteq> usd_taxable_total inp - walked_cost_basis inp
      then Inl (Exception GainLossTotal)
      else Inr ())"
proof -
  from cost_basis_loop_walk [OF assms, of "disposed_total inp" 0 0]
  obtain t where "cost_basis_loop (disposed_total inp) 0 0 (in_transaction_set inp)
     = Inr (t, walked_cost_basis inp)"
    by (auto simp: walked_cost_basis_def)
  then show ?thesis
    by (simp add: verify_computation_def Let_def running_sum_eq disposed_total_def
        crypto_taxable_total_def usd_taxable_total_def add.commute add.left_commute)
qed

text \<open>
  Claim C8.  For lots of positive quantity, \<^verbatim>\<open>_verify_computation\<close> raises if and
  only if one of the four totals it is given differs from the total recomputed from the
  raw collections: the taxable crypto amount, the taxable USD amount, the cost basis
  of walking the lots up to the disposed quantity with the last lot fractioned, and
  the gain, which is the USD amount minus that cost basis.  What it raises is a plain
  \<open>Exception\<close>, neither \<open>RP2ValueError\<close> nor \<open>RP2TypeError\<close>.
\<close>

theorem verify_computation_raises_iff:
  assumes "\<forall>l \<in> set (in_transaction_set inp). 0 < crypto_in l"
  shows "(verify_computation inp a b c d \<noteq> Inr ()
          \<longleftrightarrow> a \<noteq> crypto_taxable_total inp \<or> b \<noteq> usd_taxable_total inp
              \<or> c \<noteq> walked_cost_basis inp
              \<or> d \<noteq> usd_taxable_total inp - walked_cost_basis inp)
         \<and> (\<forall>e. verify_computation inp a b c d = Inl e \<longrightarrow>
               (\<exists>k. e = Exception k) \<and> e \<noteq> RP2ValueError \<and> e \<noteq> RP2TypeError)"
proof -
  from assms have "\<forall>l \<in> set (in_transaction_set inp). crypto_in l \<noteq> 0"
    by auto
  from verify_computation_eq [OF this] show ?thesis
    by auto
qed

lemma two_lots_walked: "walked_cost_basis two_lots = 90"
  by (simp add: walked_cost_basis_def disposed_total_def two_lots_def buy_def sell_def)

lemma two_lots_totals:
  "crypto_taxable_total two_lots = 8" "usd_taxable_total two_lots = 100"
  by (simp_all add: crypto_taxable_total_def usd_taxable_total_def two_lots_def
      buy_def sell_def)

theorem verify_computation_raises_iff_witness:
  "in_transaction_set two_lots = [buy 1 6 60, buy 2 6 90]
   \<and> 0 < crypto_in (buy 1 6 60) \<and> 0 < crypto_in (buy 2 6 90)
   \<and> verify_computation two_lots 8 100 90 10 = Inr ()
   \<and> verify_computation two_lots 8 100 60 40 \<noteq> Inr ()
   \<and> verify_computation two_lots 8 100 60 40 = Inl (Exception CostBasis)"
proof -
  have h: "\<forall>l \<in> set (in_transaction_set two_lots). 0 < crypto_in l"
    by (simp add: two_lots_def buy_def)
  from verify_computation_raises_iff [OF h, of 8 100 90 10]
  have ok: "verify_computation two_lots 8 100 90 10 = Inr ()"
    by (simp add: two_lots_walked two_lots_totals)
  from verify_computation_raises_iff [OF h, of 8 100 60 40]
  have bad: "verify_computation two_lots 8 100 60 40 \<noteq> Inr ()"
    by (simp add: two_lots_walked two_lots_totals)
  have "verify_computation two_lots 8 100 60 40 = Inl (Exception CostBasis)"
    by (simp add: verify_computation_def two_lots_def buy_def sell_def)
  moreover have "in_transaction_set two_lots = [buy 1 6 60, buy 2 6 90]"
    "0 < crypto_in (buy 1 6 60)" "0 < crypto_in (buy 2 6 90)"
    by (simp_all add: two_lots_def buy_def)
  ultimately show ?thesis using ok bad by blast
qed

section \<open>The yearly aggregation\<close>

lemma map_of_setitem: "map_of (setitem d k v) = (map_of d)(k \<mapsto> v)"
  by (induction d) auto

lemma keys_setitem:
  "map fst (setitem d k v) = (if k \<in> fst ` set d then map fst d else map fst d @ [k])"
  by (induction d) auto

lemma summed_snoc:
  "summed (gs @ [g]) =
     (case summed gs of
        YearlyGainLossAmounts ca ua cb gl \<Rightarrow>
          YearlyGainLossAmounts (ca + GainLoss.crypto_amount g)
            (ua + taxable_event_usd_amount_with_fee_fraction g)
            (cb + usd_cost_basis g) (gl + usd_gain g))"
  by (simp add: summed_def)

lemma summed_Nil: "summed [] = YearlyGainLossAmounts ZERO ZERO ZERO ZERO"
  by (simp add: summed_def)

lemma keys_summarize:
  "map fst (summarize d g) =
     (if key_of g \<in> fst ` set d then map fst d else map fst d @ [key_of g])"
  by (auto simp: summarize_def setdefault_def Let_def keys_setitem map_of_eq_None_iff
      split: option.splits YearlyGainLossAmounts.splits)

lemma map_of_summarize:
  "map_of (summarize d g) =
     (map_of d)(key_of g \<mapsto>
        (case (case map_of d (key_of g) of
                 None \<Rightarrow> YearlyGainLossAmounts ZERO ZERO ZERO ZERO | Some v \<Rightarrow> v) of
           YearlyGainLossAmounts ca ua cb gl \<Rightarrow>
             YearlyGainLossAmounts (ca + GainLoss.crypto_amount g)
               (ua + taxable_event_usd_amount_with_fee_fraction g)
               (cb + usd_cost_basis g) (gl + usd_gain g)))"
  by (auto simp: summarize_def setdefault_def Let_def map_of_setitem fun_eq_iff
      map_add_def split: option.splits YearlyGainLossAmounts.splits)

lemma summaries_invariant:
  "distinct (map fst (foldl summarize [] gls))
   \<and> fst ` set (foldl summarize [] gls) = key_of ` set gls
   \<and> (\<forall>k \<in> key_of ` set gls.
        map_of (foldl summarize [] gls) k = Some (summed (records_of_key gls k)))"
proof (induction gls rule: rev_induct)
  case Nil
  show ?case by simp
next
  case (snoc g gls)
  let ?d = "foldl summarize [] gls"
  from snoc have dist: "distinct (map fst ?d)"
    and keys: "fst ` set ?d = key_of ` set gls"
    and vals: "\<And>k. k \<in> key_of ` set gls \<Longrightarrow>
                 map_of ?d k = Some (summed (records_of_key gls k))"
    by auto
  have new: "map_of ?d (key_of g) = None" if "key_of g \<notin> key_of ` set gls"
    using that keys by (simp add: map_of_eq_None_iff)
  have none: "records_of_key gls (key_of g) = []" if "key_of g \<notin> key_of ` set gls"
  proof -
    from that have "\<forall>x \<in> set gls. key_of x \<noteq> key_of g"
      by (metis imageI)
    then show ?thesis
      by (simp add: records_of_key_def filter_empty_conv)
  qed
  have 1: "distinct (map fst (foldl summarize [] (gls @ [g])))"
    using dist by (simp add: keys_summarize)
  have 2: "fst ` set (foldl summarize [] (gls @ [g])) = key_of ` set (gls @ [g])"
  proof -
    have "fst ` set (summarize ?d g) = set (map fst (summarize ?d g))" by simp
    also have "\<dots> = insert (key_of g) (fst ` set ?d)"
      by (auto simp: keys_summarize)
    finally show ?thesis using keys by simp
  qed
  have 3: "map_of (foldl summarize [] (gls @ [g])) k
           = Some (summed (records_of_key (gls @ [g]) k))"
    if "k \<in> key_of ` set (gls @ [g])" for k
  proof (cases "k = key_of g")
    case True
    show ?thesis
    proof (cases "key_of g \<in> key_of ` set gls")
      case True
      with vals [OF True] \<open>k = key_of g\<close> show ?thesis
        by (simp add: map_of_summarize records_of_key_def summed_snoc
            del: image_iff)
    next
      case False
      with new [OF False] none [OF False] \<open>k = key_of g\<close> show ?thesis
        by (simp add: map_of_summarize records_of_key_def summed_def)
    qed
  next
    case False
    with that have "k \<in> key_of ` set gls" by auto
    from vals [OF this] False show ?thesis
      by (simp add: map_of_summarize records_of_key_def)
  qed
  from 1 2 3 show ?case by blast
qed

lemma key_new_YearlyGainLoss: "YearlyGainLoss_key (new_YearlyGainLoss item) = fst item"
  by (cases item rule: new_YearlyGainLoss.cases) (simp add: YearlyGainLoss_key_def)

lemma for_items_set:
  "distinct (map fst d) \<Longrightarrow>
   \<forall>y \<in> set (yearly_gain_loss_set t). YearlyGainLoss_key y \<notin> fst ` set d \<Longrightarrow>
   yearly_gain_loss_set (for_items d t) = yearly_gain_loss_set t @ map new_YearlyGainLoss d"
proof (induction d arbitrary: t)
  case Nil
  show ?case by simp
next
  case (Cons item d)
  let ?y = "new_YearlyGainLoss item"
  have fresh: "?y \<notin> set (yearly_gain_loss_set t)"
    using Cons.prems(2) key_new_YearlyGainLoss [of item] by auto
  define t' where "t' =
     \<lparr>yearly_gain_loss_set = set_add (yearly_gain_loss_set t) ?y,
      crypto_taxable_amount_total =
        crypto_taxable_amount_total t + YearlyGainLoss.crypto_amount ?y,
      usd_taxable_amount_total = usd_taxable_amount_total t + YearlyGainLoss.usd_amount ?y,
      cost_basis_total = cost_basis_total t + YearlyGainLoss.usd_cost_basis ?y,
      gain_loss_total = gain_loss_total t + YearlyGainLoss.usd_gain_loss ?y\<rparr>"
  have set': "yearly_gain_loss_set t' = yearly_gain_loss_set t @ [?y]"
    using fresh by (simp add: t'_def set_add_def)
  have d: "distinct (map fst d)" using Cons.prems(1) by simp
  have disj: "\<forall>y \<in> set (yearly_gain_loss_set t'). YearlyGainLoss_key y \<notin> fst ` set d"
    using Cons.prems set' by (auto simp: key_new_YearlyGainLoss)
  have "for_items (item # d) t = for_items d t'"
    by (simp add: t'_def Let_def)
  with Cons.IH [OF d disj] set' show ?case by simp
qed

lemma mset_sorted_reverse: "mset (sorted_reverse f xs) = mset xs"
  by (simp add: sorted_reverse_def)

lemma sorted_reverse_descending:
  "sorted_wrt (\<lambda>a b. f b \<le> f a) (sorted_reverse f xs)"
proof -
  have "sorted (map f (sort_key f (rev xs)))" by (rule sorted_sort_key)
  then have "sorted_wrt (\<lambda>a b. f a \<le> f b) (sort_key f (rev xs))"
    by (simp add: sorted_map)
  then show ?thesis
    by (simp add: sorted_reverse_def sorted_wrt_rev)
qed

lemma create_yearly_gain_loss_list_Inr:
  assumes "create_yearly_gain_loss_list type_value inp gls = Inr ys"
  shows "ys = sorted_reverse (yearly_gain_loss_sort_criteria type_value)
                (map new_YearlyGainLoss (foldl summarize [] gls))"
proof -
  have "yearly_gain_loss_set
          (for_items (foldl summarize [] gls)
             \<lparr>yearly_gain_loss_set = [], crypto_taxable_amount_total = ZERO,
              usd_taxable_amount_total = ZERO, cost_basis_total = ZERO,
              gain_loss_total = ZERO\<rparr>)
        = map new_YearlyGainLoss (foldl summarize [] gls)"
    using for_items_set [of "foldl summarize [] gls"] summaries_invariant [of gls]
    by simp
  with assms show ?thesis
    by (auto simp: create_yearly_gain_loss_list_def Let_def split: sum.splits)
qed

lemma yearly_summaries_returned:
  assumes "create_yearly_gain_loss_list type_value inp gls = Inr ys"
  shows "distinct (map YearlyGainLoss_key ys)
         \<and> set (map YearlyGainLoss_key ys) = key_of ` set gls
         \<and> (\<forall>y \<in> set ys.
              YearlyGainLoss.crypto_amount y
                = sum_list (map GainLoss.crypto_amount
                    (records_of_key gls (YearlyGainLoss_key y)))
              \<and> YearlyGainLoss.usd_amount y
                = sum_list (map taxable_event_usd_amount_with_fee_fraction
                    (records_of_key gls (YearlyGainLoss_key y)))
              \<and> YearlyGainLoss.usd_cost_basis y
                = sum_list (map usd_cost_basis
                    (records_of_key gls (YearlyGainLoss_key y)))
              \<and> YearlyGainLoss.usd_gain_loss y
                = sum_list (map usd_gain
                    (records_of_key gls (YearlyGainLoss_key y))))"
proof -
  let ?d = "foldl summarize [] gls"
  let ?xs = "map new_YearlyGainLoss ?d"
  from summaries_invariant [of gls] have dist: "distinct (map fst ?d)"
    and keys: "fst ` set ?d = key_of ` set gls"
    and vals: "\<And>k. k \<in> key_of ` set gls \<Longrightarrow>
                 map_of ?d k = Some (summed (records_of_key gls k))"
    by auto
  have ms: "mset ys = mset ?xs"
    using create_yearly_gain_loss_list_Inr [OF assms] by (simp add: mset_sorted_reverse)
  have kx: "map YearlyGainLoss_key ?xs = map fst ?d"
    by (simp add: key_new_YearlyGainLoss)
  have "mset (map YearlyGainLoss_key ys) = mset (map YearlyGainLoss_key ?xs)"
    using ms by (metis mset_map)
  then have mk: "mset (map YearlyGainLoss_key ys) = mset (map fst ?d)"
    by (simp only: kx)
  from mk dist have 1: "distinct (map YearlyGainLoss_key ys)"
    by (metis mset_eq_imp_distinct_iff)
  from mk have "set (map YearlyGainLoss_key ys) = set (map fst ?d)"
    by (rule mset_eq_setD)
  with keys have 2: "set (map YearlyGainLoss_key ys) = key_of ` set gls"
    by simp
  have 3: "YearlyGainLoss.crypto_amount y
                = sum_list (map GainLoss.crypto_amount
                    (records_of_key gls (YearlyGainLoss_key y)))
              \<and> YearlyGainLoss.usd_amount y
                = sum_list (map taxable_event_usd_amount_with_fee_fraction
                    (records_of_key gls (YearlyGainLoss_key y)))
              \<and> YearlyGainLoss.usd_cost_basis y
                = sum_list (map usd_cost_basis
                    (records_of_key gls (YearlyGainLoss_key y)))
              \<and> YearlyGainLoss.usd_gain_loss y
                = sum_list (map usd_gain
                    (records_of_key gls (YearlyGainLoss_key y)))"
    if "y \<in> set ys" for y
  proof -
    from that ms have "y \<in> set ?xs" by (metis mset_eq_setD)
    then obtain k v where kv: "(k, v) \<in> set ?d" and y: "y = new_YearlyGainLoss (k, v)"
      by auto
    from kv keys have "k \<in> key_of ` set gls" by (metis fst_conv imageI)
    from vals [OF this] kv dist have v: "v = summed (records_of_key gls k)"
      by simp
    from y have "YearlyGainLoss_key y = k" by (simp add: key_new_YearlyGainLoss)
    with y v show ?thesis
      by (cases k) (simp add: summed_def)
  qed
  from 1 2 3 show ?thesis by blast
qed

lemma fields_key_of: "YearlyGainLossId_fields (key_of g) = record_key g"
  by (simp add: key_of_def record_key_def)

lemma fields_YearlyGainLoss_key: "YearlyGainLossId_fields (YearlyGainLoss_key s) = summary_key s"
  by (simp add: YearlyGainLoss_key_def summary_key_def)

lemma inj_YearlyGainLossId_fields: "inj YearlyGainLossId_fields"
proof (rule injI)
  fix x y
  assume "YearlyGainLossId_fields x = YearlyGainLossId_fields y"
  then show "x = y" by (cases x; cases y) simp
qed

lemma records_of_key_with:
  "records_of_key gls k = records_with gls (YearlyGainLossId_fields k)"
proof -
  have "(key_of g = k) = (record_key g = YearlyGainLossId_fields k)" for g
    using inj_YearlyGainLossId_fields fields_key_of [of g]
    by (metis injD)
  then show ?thesis
    by (simp add: records_of_key_def records_with_def)
qed

lemma summaries_by_fields:
  "distinct (map fst (foldl summarize [] gls))
   \<and> YearlyGainLossId_fields ` fst ` set (foldl summarize [] gls) = record_key ` set gls
   \<and> (\<forall>(k, v) \<in> set (foldl summarize [] gls).
        v = summed (records_with gls (YearlyGainLossId_fields k)))"
proof -
  let ?d = "foldl summarize [] gls"
  from summaries_invariant [of gls] have dist: "distinct (map fst ?d)"
    and keys: "fst ` set ?d = key_of ` set gls"
    and vals: "\<And>k. k \<in> key_of ` set gls \<Longrightarrow>
                 map_of ?d k = Some (summed (records_of_key gls k))"
    by auto
  have "YearlyGainLossId_fields ` fst ` set ?d = (YearlyGainLossId_fields \<circ> key_of) ` set gls"
    by (simp only: keys image_comp)
  also have "\<dots> = record_key ` set gls"
    by (simp add: comp_def fields_key_of)
  finally have 2: "YearlyGainLossId_fields ` fst ` set ?d = record_key ` set gls" .
  have 3: "v = summed (records_with gls (YearlyGainLossId_fields k))"
    if "(k, v) \<in> set ?d" for k v
  proof -
    from that keys have "k \<in> key_of ` set gls" by (metis fst_conv imageI)
    from vals [OF this] that dist show ?thesis
      by (simp add: records_of_key_with)
  qed
  from dist 2 3 show ?thesis by blast
qed

lemma returned_by_fields:
  assumes "create_yearly_gain_loss_list type_value inp gls = Inr ys"
  shows "distinct (map summary_key ys)"
    and "set (map summary_key ys) = record_key ` set gls"
    and "\<forall>s \<in> set ys.
           YearlyGainLoss.crypto_amount s
             = sum_list (map GainLoss.crypto_amount (records_with gls (summary_key s)))
           \<and> YearlyGainLoss.usd_amount s
             = sum_list (map taxable_event_usd_amount_with_fee_fraction
                 (records_with gls (summary_key s)))
           \<and> YearlyGainLoss.usd_cost_basis s
             = sum_list (map usd_cost_basis (records_with gls (summary_key s)))
           \<and> YearlyGainLoss.usd_gain_loss s
             = sum_list (map usd_gain (records_with gls (summary_key s)))"
proof -
  note r = yearly_summaries_returned [OF assms]
  have sk: "summary_key = YearlyGainLossId_fields \<circ> YearlyGainLoss_key"
    by (rule ext) (simp add: fields_YearlyGainLoss_key)
  have "map summary_key ys = map YearlyGainLossId_fields (map YearlyGainLoss_key ys)"
    by (simp add: sk)
  moreover have "distinct (map YearlyGainLossId_fields (map YearlyGainLoss_key ys))"
    using r inj_YearlyGainLossId_fields
    by (simp only: distinct_map) (metis inj_on_subset subset_UNIV)
  ultimately show "distinct (map summary_key ys)" by (simp only:)
  have "set (map summary_key ys) = YearlyGainLossId_fields ` set (map YearlyGainLoss_key ys)"
    by (simp add: sk image_comp)
  also have "\<dots> = (YearlyGainLossId_fields \<circ> key_of) ` set gls"
    using r by (simp only: image_comp)
  also have "\<dots> = record_key ` set gls"
    by (simp add: comp_def fields_key_of)
  finally show "set (map summary_key ys) = record_key ` set gls" .
  from r show "\<forall>s \<in> set ys.
           YearlyGainLoss.crypto_amount s
             = sum_list (map GainLoss.crypto_amount (records_with gls (summary_key s)))
           \<and> YearlyGainLoss.usd_amount s
             = sum_list (map taxable_event_usd_amount_with_fee_fraction
                 (records_with gls (summary_key s)))
           \<and> YearlyGainLoss.usd_cost_basis s
             = sum_list (map usd_cost_basis (records_with gls (summary_key s)))
           \<and> YearlyGainLoss.usd_gain_loss s
             = sum_list (map usd_gain (records_with gls (summary_key s)))"
    by (simp add: records_of_key_with fields_YearlyGainLoss_key)
qed

text \<open>Texts: the order of concatenations and of decimal numerals.\<close>

lemma append_le_same_length:
  "length a = length b \<Longrightarrow>
   ((a @ x :: string) \<le> b @ y) = (a < b \<or> a = b \<and> x \<le> y)"
  by (induction a b rule: list_induct2) auto

lemma append_less_same_length:
  "length a = length b \<Longrightarrow>
   ((a @ x :: string) < b @ y) = (a < b \<or> a = b \<and> x < y)"
  by (induction a b rule: list_induct2) auto

lemma digit_cases:
  assumes "n < (10::nat)"
  obtains "n = 0" | "n = 1" | "n = 2" | "n = 3" | "n = 4" | "n = 5"
    | "n = 6" | "n = 7" | "n = 8" | "n = 9"
  using assms by atomize_elim arith

lemma digit_less:
  assumes "i < 10" "j < 10"
  shows "(''0123456789'' ! i < ''0123456789'' ! j) = (i < j)"
  using assms(1)
proof (cases rule: digit_cases)
qed (use assms(2) in \<open>cases rule: digit_cases; simp\<close>)+

lemma digit_inj:
  assumes "i < 10" "j < 10"
  shows "(''0123456789'' ! i = ''0123456789'' ! j) = (i = j)"
  using digit_less [OF assms] digit_less [OF assms(2,1)]
  by (metis less_irrefl linorder_neqE_nat)

lemma length_str_nat_pos: "0 < length (str_nat n)"
  by (induction n rule: str_nat.induct) (subst str_nat.simps, simp)

lemma equal_by_digits:
  "((m::nat) = n) = (m div 10 = n div 10 \<and> m mod 10 = n mod 10)"
  by (metis div_mult_mod_eq)

lemma less_by_digits:
  "((m::nat) < n) = (m div 10 < n div 10 \<or> m div 10 = n div 10 \<and> m mod 10 < n mod 10)"
proof -
  have m: "m = 10 * (m div 10) + m mod 10" and n: "n = 10 * (n div 10) + n mod 10"
    by simp_all
  have "m mod 10 < 10" "n mod 10 < 10" by simp_all
  then show ?thesis using m n by linarith
qed

lemma str_nat_unfold:
  "str_nat n = (if n < 10 then [''0123456789'' ! n]
                else str_nat (n div 10) @ [''0123456789'' ! (n mod 10)])"
  by (subst str_nat.simps) simp

lemma str_nat_order:
  "length (str_nat m) = length (str_nat n) \<Longrightarrow>
   (str_nat m < str_nat n) = (m < n) \<and> (str_nat m = str_nat n) = (m = n)"
proof (induction m arbitrary: n rule: str_nat.induct)
  case (1 m)
  note str_nat.simps [simp del]
  note sm = str_nat_unfold [of m] and sn = str_nat_unfold [of n]
  show ?case
  proof (cases "m < 10")
    case True
    with "1.prems" sm sn length_str_nat_pos [of "n div 10"] have n: "n < 10"
      by (cases "n < 10") auto
    with True sm sn digit_less [of m n] digit_inj [of m n] show ?thesis
      by simp
  next
    case False
    with "1.prems" sm sn length_str_nat_pos [of "m div 10"] have n: "\<not> n < 10"
      by (cases "n < 10") auto
    from False n "1.prems" sm sn
    have len: "length (str_nat (m div 10)) = length (str_nat (n div 10))"
      by simp
    from "1.IH" [OF False len]
    have lt: "(str_nat (m div 10) < str_nat (n div 10)) = (m div 10 < n div 10)"
      and eq: "(str_nat (m div 10) = str_nat (n div 10)) = (m div 10 = n div 10)"
      by simp_all
    have dl: "(''0123456789'' ! (m mod 10) < ''0123456789'' ! (n mod 10))
              = (m mod 10 < n mod 10)"
      by (rule digit_less) simp_all
    have di: "(''0123456789'' ! (m mod 10) = ''0123456789'' ! (n mod 10))
              = (m mod 10 = n mod 10)"
      by (rule digit_inj) simp_all
    have a1: "(m < n) = (m div 10 < n div 10 \<or> m div 10 = n div 10 \<and> m mod 10 < n mod 10)"
      by (rule less_by_digits)
    have a2: "(m = n) = (m div 10 = n div 10 \<and> m mod 10 = n mod 10)"
      by (rule equal_by_digits)
    have "(str_nat m < str_nat n) = (m < n)"
      using False n sm sn by (simp add: append_less_same_length [OF len] lt eq dl a1)
    moreover have "(str_nat m = str_nat n) = (m = n)"
      using False n sm sn by (simp add: eq di a2)
    ultimately show ?thesis by simp
  qed
qed

lemma length_str_nat_4: "1000 \<le> n \<Longrightarrow> n \<le> 9999 \<Longrightarrow> length (str_nat n) = 4"
proof -
  assume a: "1000 \<le> n" "n \<le> 9999"
  note str_nat.simps [simp del]
  have b: "\<not> n < 10" "\<not> n div 10 < 10" "\<not> n div 10 div 10 < 10"
    "n div 10 div 10 div 10 < 10"
    using a by (simp_all add: not_less less_eq_div_iff_mult_less_eq div_less_iff_less_mult)
  have 1: "str_nat n = str_nat (n div 10) @ [''0123456789'' ! (n mod 10)]"
    using b by (subst str_nat_unfold) simp
  have 2: "str_nat (n div 10)
           = str_nat (n div 10 div 10) @ [''0123456789'' ! (n div 10 mod 10)]"
    using b by (subst str_nat_unfold) simp
  have 3: "str_nat (n div 10 div 10)
           = str_nat (n div 10 div 10 div 10) @ [''0123456789'' ! (n div 10 div 10 mod 10)]"
    using b by (subst str_nat_unfold) simp
  have 4: "str_nat (n div 10 div 10 div 10)
           = [''0123456789'' ! (n div 10 div 10 div 10)]"
    using b by (subst str_nat_unfold) simp
  show ?thesis by (simp add: 1 2 3 4)
qed

lemma criteria_le_iff:
  assumes len: "length (YearlyGainLoss.asset b) = length (YearlyGainLoss.asset a)"
    and ya: "1000 \<le> YearlyGainLoss.year a" "YearlyGainLoss.year a \<le> 9999"
    and yb: "1000 \<le> YearlyGainLoss.year b" "YearlyGainLoss.year b \<le> 9999"
  shows "(yearly_gain_loss_sort_criteria type_value b
            \<le> yearly_gain_loss_sort_criteria type_value a)
         = composite_key_ge type_value a b"
proof -
  note str_nat.simps [simp del]
  let ?na = "nat (YearlyGainLoss.year a)" and ?nb = "nat (YearlyGainLoss.year b)"
  have sa: "str_int (YearlyGainLoss.year a) = str_nat ?na"
    and sb: "str_int (YearlyGainLoss.year b) = str_nat ?nb"
    using ya yb by (simp_all add: str_int_def)
  have la: "length (str_nat ?na) = 4" and lb: "length (str_nat ?nb) = 4"
    using ya yb by (simp_all add: length_str_nat_4)
  then have ly: "length (str_nat ?nb) = length (str_nat ?na)" by simp
  from str_nat_order [OF ly]
  have lt: "(str_nat ?nb < str_nat ?na) = (YearlyGainLoss.year b < YearlyGainLoss.year a)"
    and eq: "(str_nat ?nb = str_nat ?na) = (YearlyGainLoss.year b = YearlyGainLoss.year a)"
    using ya yb by auto
  show ?thesis
    by (simp add: yearly_gain_loss_sort_criteria_def composite_key_ge_def
        term_classification_def sa sb append_le_same_length [OF len]
        append_le_same_length [OF ly] lt eq)
qed

lemma two_years_events:
  "create_taxable_event_set example_configuration two_years
   = [disposal (on_day 2020 3) 4 60,
      AbstractTransaction.truncate (income (on_day 2021 380) 1 20),
      disposal (on_day 2021 500) 8 160]"
  by (simp add: create_taxable_event_set_def create_taxable_event_set_loops_def
      two_years_def income_def acquisition_def disposal_def on_day_def
      AbstractTransaction.truncate_def)

lemma two_years_matched:
  "create_gain_and_loss_set example_configuration two_years
     [disposal (on_day 2020 3) 4 60,
      AbstractTransaction.truncate (income (on_day 2021 380) 1 20),
      disposal (on_day 2021 500) 8 160]
   = Inr two_years_records"
  by (simp add: create_gain_and_loss_set_def two_years_def step_def
      except_StopIteration_def GainLossSet_add_entry_def two_years_records_def
      income_def acquisition_def disposal_def on_day_def AbstractTransaction.truncate_def)

lemma two_years_record_keys:
  "map record_key two_years_records
   = [(2020, ''BTC'', Other ''sell'', False), (2021, ''BTC'', EARN, False),
      (2021, ''BTC'', Other ''sell'', True), (2021, ''BTC'', Other ''sell'', False),
      (2021, ''BTC'', Other ''sell'', False)]"
  by (simp add: two_years_records_def record_key_def GainLoss_asset_def
      is_long_term_capital_gains_def income_def acquisition_def disposal_def on_day_def
      AbstractTransaction.truncate_def)

lemma two_years_foldl:
  "foldl summarize [] two_years_records
   = [(YearlyGainLossId 2020 ''BTC'' (Other ''sell'') False, YearlyGainLossAmounts 4 60 40 20),
      (YearlyGainLossId 2021 ''BTC'' EARN False, YearlyGainLossAmounts 1 20 0 20),
      (YearlyGainLossId 2021 ''BTC'' (Other ''sell'') True, YearlyGainLossAmounts 6 120 60 60),
      (YearlyGainLossId 2021 ''BTC'' (Other ''sell'') False, YearlyGainLossAmounts 2 40 40 0)]"
  by (simp add: two_years_records_def summarize_def setdefault_def key_of_def
      GainLoss_asset_def is_long_term_capital_gains_def usd_cost_basis_def usd_gain_def
      taxable_event_usd_amount_with_fee_fraction_def
      income_def acquisition_def disposal_def on_day_def AbstractTransaction.truncate_def)

lemma two_years_verified: "verify_computation two_years 13 240 140 100 = Inr ()"
  by (simp add: verify_computation_def two_years_def income_def acquisition_def
      disposal_def)

lemma two_years_unsorted:
  "map (yearly_gain_loss_sort_criteria example_type_value)
     (map new_YearlyGainLoss (foldl summarize [] two_years_records))
   = [''BTC 2020 SHORT sell'', ''BTC 2021 SHORT earn'', ''BTC 2021 LONG sell'',
      ''BTC 2021 SHORT sell'']"
  by (simp add: two_years_foldl yearly_gain_loss_sort_criteria_def example_type_value_def
      str_int_def)

lemma two_years_aggregated:
  "create_yearly_gain_loss_list example_type_value two_years two_years_records
   = Inr two_years_yearly"
  by (simp add: create_yearly_gain_loss_list_def two_years_foldl set_add_def
      two_years_verified sorted_reverse_def yearly_gain_loss_sort_criteria_def
      example_type_value_def str_int_def two_years_yearly_def summary_def)

lemma two_assets_keys:
  "map (\<lambda>p. YearlyGainLossId_fields (fst p)) (foldl summarize [] two_assets_records)
   = [(2020, ''BTC'', Other ''sell'', False), (2020, ''ETH'', Other ''sell'', False)]"
  by (simp add: two_assets_records_def summarize_def setdefault_def key_of_def
      GainLoss_asset_def is_long_term_capital_gains_def
      acquisition_def disposal_def on_day_def)

text \<open>
  Claim C6.  For every sequence of gain/loss records the dictionary of the first loop
  has exactly one entry for every key (year of the taxable event, asset, transaction
  type, long-term flag) that occurs among the records and none for any other key, and
  the entry of a key holds the sums of the crypto amount, the proceeds, the cost basis
  and the gain of the records with that key, each record counted once, from zero.  The
  list \<^verbatim>\<open>_create_yearly_gain_loss_list\<close> returns has one summary per such key,
  with these four sums.
\<close>

theorem create_yearly_gain_loss_list_summaries:
  "distinct (map fst (foldl summarize [] gls))
   \<and> YearlyGainLossId_fields ` fst ` set (foldl summarize [] gls) = record_key ` set gls
   \<and> (\<forall>(k, v) \<in> set (foldl summarize [] gls).
        v = summed (records_with gls (YearlyGainLossId_fields k)))
   \<and> (create_yearly_gain_loss_list type_value inp gls = Inr ys \<longrightarrow>
        distinct (map summary_key ys)
        \<and> set (map summary_key ys) = record_key ` set gls
        \<and> (\<forall>s \<in> set ys.
              YearlyGainLoss.crypto_amount s
                = sum_list (map GainLoss.crypto_amount (records_with gls (summary_key s)))
              \<and> YearlyGainLoss.usd_amount s
                = sum_list (map taxable_event_usd_amount_with_fee_fraction
                    (records_with gls (summary_key s)))
              \<and> YearlyGainLoss.usd_cost_basis s
                = sum_list (map usd_cost_basis (records_with gls (summary_key s)))
              \<and> YearlyGainLoss.usd_gain_loss s
                = sum_list (map usd_gain (records_with gls (summary_key s)))))"
  using summaries_by_fields [of gls] returned_by_fields [of type_value inp gls ys]
  by blast

theorem create_yearly_gain_loss_list_summaries_witness:
  "create_gain_and_loss_set example_configuration two_years
     (create_taxable_event_set example_configuration two_years) = Inr two_years_records
   \<and> create_yearly_gain_loss_list example_type_value two_years two_years_records
       = Inr two_years_yearly
   \<and> map record_key two_years_records
       = [(2020, ''BTC'', Other ''sell'', False), (2021, ''BTC'', EARN, False),
          (2021, ''BTC'', Other ''sell'', True), (2021, ''BTC'', Other ''sell'', False),
          (2021, ''BTC'', Other ''sell'', False)]
   \<and> map summary_key two_years_yearly
       = [(2021, ''BTC'', Other ''sell'', False), (2021, ''BTC'', EARN, False),
          (2021, ''BTC'', Other ''sell'', True), (2020, ''BTC'', Other ''sell'', False)]
   \<and> distinct (map summary_key two_years_yearly)
   \<and> set (map summary_key two_years_yearly) = record_key ` set two_years_records
   \<and> map GainLoss.crypto_amount
         (records_with two_years_records (2021, ''BTC'', Other ''sell'', False)) = [1, 1]
   \<and> YearlyGainLoss.crypto_amount (two_years_yearly ! 0)
       = sum_list (map GainLoss.crypto_amount
           (records_with two_years_records (2021, ''BTC'', Other ''sell'', False)))
   \<and> YearlyGainLoss.crypto_amount (two_years_yearly ! 0) = 2
   \<and> YearlyGainLoss.usd_cost_basis (two_years_yearly ! 0)
       = sum_list (map usd_cost_basis
           (records_with two_years_records (2021, ''BTC'', Other ''sell'', False)))
   \<and> YearlyGainLoss.usd_cost_basis (two_years_yearly ! 0) = 40
   \<and> map (\<lambda>p. YearlyGainLossId_fields (fst p)) (foldl summarize [] two_assets_records)
       = [(2020, ''BTC'', Other ''sell'', False), (2020, ''ETH'', Other ''sell'', False)]
   \<and> YearlyGainLossId_fields ` fst ` set (foldl summarize [] two_assets_records)
       = record_key ` set two_assets_records"
proof -
  have m: "create_gain_and_loss_set example_configuration two_years
     (create_taxable_event_set example_configuration two_years) = Inr two_years_records"
    by (simp only: two_years_events two_years_matched)
  have k: "map summary_key two_years_yearly
       = [(2021, ''BTC'', Other ''sell'', False), (2021, ''BTC'', EARN, False),
          (2021, ''BTC'', Other ''sell'', True), (2020, ''BTC'', Other ''sell'', False)]"
    by (simp add: two_years_yearly_def summary_def summary_key_def)
  have f: "two_years_yearly ! 0 \<in> set two_years_yearly"
    "summary_key (two_years_yearly ! 0) = (2021, ''BTC'', Other ''sell'', False)"
    "YearlyGainLoss.crypto_amount (two_years_yearly ! 0) = 2"
    "YearlyGainLoss.usd_cost_basis (two_years_yearly ! 0) = 40"
    by (simp_all add: two_years_yearly_def summary_def summary_key_def)
  have w: "map GainLoss.crypto_amount
         (records_with two_years_records (2021, ''BTC'', Other ''sell'', False)) = [1, 1]"
    by (simp add: two_years_records_def records_with_def record_key_def GainLoss_asset_def
        is_long_term_capital_gains_def income_def acquisition_def disposal_def on_day_def
        AbstractTransaction.truncate_def)
  note inst = create_yearly_gain_loss_list_summaries
    [of two_years_records example_type_value two_years two_years_yearly]
  note r = inst [THEN conjunct2, THEN conjunct2, THEN conjunct2, THEN mp,
      OF two_years_aggregated]
  from r have d: "distinct (map summary_key two_years_yearly)"
    and e: "set (map summary_key two_years_yearly) = record_key ` set two_years_records"
    by (rule conjunct1, rule conjunct1 [OF conjunct2])
  from r f(1)
  have "YearlyGainLoss.crypto_amount (two_years_yearly ! 0)
         = sum_list (map GainLoss.crypto_amount
             (records_with two_years_records (summary_key (two_years_yearly ! 0))))"
    and "YearlyGainLoss.usd_cost_basis (two_years_yearly ! 0)
         = sum_list (map usd_cost_basis
             (records_with two_years_records (summary_key (two_years_yearly ! 0))))"
    by blast+
  then have s0: "YearlyGainLoss.crypto_amount (two_years_yearly ! 0)
         = sum_list (map GainLoss.crypto_amount
             (records_with two_years_records (2021, ''BTC'', Other ''sell'', False)))"
    and s1: "YearlyGainLoss.usd_cost_basis (two_years_yearly ! 0)
         = sum_list (map usd_cost_basis
             (records_with two_years_records (2021, ''BTC'', Other ''sell'', False)))"
    by (simp_all only: f(2))
  have a: "YearlyGainLossId_fields ` fst ` set (foldl summarize [] two_assets_records)
       = record_key ` set two_assets_records"
    by (rule create_yearly_gain_loss_list_summaries
        [of two_assets_records, THEN conjunct2, THEN conjunct1])
  from m two_years_aggregated two_years_record_keys k d e w s0 f(3) s1 f(4)
    two_assets_keys a
  show ?thesis
    by (simp only: simp_thms)
qed

text \<open>
  Claim C7.  The list \<^verbatim>\<open>_create_yearly_gain_loss_list\<close> returns is in descending
  order of the composite key of asset, year, term classification and event kind: of two
  adjacent summaries the earlier has a key greater than or equal to the later one's.
  The key is the text of the four components in this order, separated by blanks, and
  is compared as a text.  For assets of equal length and years of four digits that
  is the order of the components themselves: the asset decides, then the year, then
  the term classification, then the event kind.
\<close>

theorem create_yearly_gain_loss_list_sorted:
  assumes "create_yearly_gain_loss_list type_value inp gls = Inr ys"
    and "Suc i < length ys"
  shows "YearlyGainLoss.asset (ys ! Suc i)
           @ '' '' @ str_int (YearlyGainLoss.year (ys ! Suc i))
           @ '' '' @ term_classification (ys ! Suc i)
           @ '' '' @ type_value (YearlyGainLoss.transaction_type (ys ! Suc i))
         \<le> YearlyGainLoss.asset (ys ! i)
           @ '' '' @ str_int (YearlyGainLoss.year (ys ! i))
           @ '' '' @ term_classification (ys ! i)
           @ '' '' @ type_value (YearlyGainLoss.transaction_type (ys ! i))
         \<and> (length (YearlyGainLoss.asset (ys ! Suc i)) = length (YearlyGainLoss.asset (ys ! i))
            \<and> 1000 \<le> YearlyGainLoss.year (ys ! i) \<and> YearlyGainLoss.year (ys ! i) \<le> 9999
            \<and> 1000 \<le> YearlyGainLoss.year (ys ! Suc i)
            \<and> YearlyGainLoss.year (ys ! Suc i) \<le> 9999
            \<longrightarrow> composite_key_ge type_value (ys ! i) (ys ! Suc i))"
proof -
  have "sorted_wrt (\<lambda>a b. yearly_gain_loss_sort_criteria type_value b
                          \<le> yearly_gain_loss_sort_criteria type_value a) ys"
    using create_yearly_gain_loss_list_Inr [OF assms(1)] sorted_reverse_descending
    by simp
  from sorted_wrt_nth_less [OF this, of i "Suc i"] assms(2)
  have le: "yearly_gain_loss_sort_criteria type_value (ys ! Suc i)
            \<le> yearly_gain_loss_sort_criteria type_value (ys ! i)"
    by simp
  then have 1: "YearlyGainLoss.asset (ys ! Suc i)
           @ '' '' @ str_int (YearlyGainLoss.year (ys ! Suc i))
           @ '' '' @ term_classification (ys ! Suc i)
           @ '' '' @ type_value (YearlyGainLoss.transaction_type (ys ! Suc i))
         \<le> YearlyGainLoss.asset (ys ! i)
           @ '' '' @ str_int (YearlyGainLoss.year (ys ! i))
           @ '' '' @ term_classification (ys ! i)
           @ '' '' @ type_value (YearlyGainLoss.transaction_type (ys ! i))"
    by (simp only: yearly_gain_loss_sort_criteria_def term_classification_def)
  have 2: "composite_key_ge type_value (ys ! i) (ys ! Suc i)"
    if "length (YearlyGainLoss.asset (ys ! Suc i)) = length (YearlyGainLoss.asset (ys ! i))"
      "1000 \<le> YearlyGainLoss.year (ys ! i)" "YearlyGainLoss.year (ys ! i) \<le> 9999"
      "1000 \<le> YearlyGainLoss.year (ys ! Suc i)" "YearlyGainLoss.year (ys ! Suc i) \<le> 9999"
    using criteria_le_iff [OF that, of type_value] le by simp
  from 1 2 show ?thesis by blast
qed

theorem create_yearly_gain_loss_list_sorted_witness:
  "create_yearly_gain_loss_list example_type_value two_years two_years_records
     = Inr two_years_yearly
   \<and> length two_years_yearly = 4
   \<and> map (yearly_gain_loss_sort_criteria example_type_value)
        (map new_YearlyGainLoss (foldl summarize [] two_years_records))
       = [''BTC 2020 SHORT sell'', ''BTC 2021 SHORT earn'', ''BTC 2021 LONG sell'',
          ''BTC 2021 SHORT sell'']
   \<and> map (\<lambda>s. YearlyGainLoss.asset s @ '' '' @ str_int (YearlyGainLoss.year s)
              @ '' '' @ term_classification s
              @ '' '' @ example_type_value (YearlyGainLoss.transaction_type s))
        two_years_yearly
       = [''BTC 2021 SHORT sell'', ''BTC 2021 SHORT earn'', ''BTC 2021 LONG sell'',
          ''BTC 2020 SHORT sell'']
   \<and> ''BTC 2021 SHORT earn'' \<le> ''BTC 2021 SHORT sell''
   \<and> ''BTC 2021 LONG sell'' \<le> ''BTC 2021 SHORT earn''
   \<and> ''BTC 2020 SHORT sell'' \<le> ''BTC 2021 LONG sell''
   \<and> composite_key_ge example_type_value
         (summary 2021 (Other ''sell'') False 2 40 40 0) (summary 2021 EARN False 1 20 0 20)
   \<and> composite_key_ge example_type_value
         (summary 2021 EARN False 1 20 0 20) (summary 2021 (Other ''sell'') True 6 120 60 60)
   \<and> composite_key_ge example_type_value
         (summary 2021 (Other ''sell'') True 6 120 60 60)
         (summary 2020 (Other ''sell'') False 4 60 40 20)"
proof -
  have l: "length two_years_yearly = 4"
    by (simp add: two_years_yearly_def)
  have t: "map (\<lambda>s. YearlyGainLoss.asset s @ '' '' @ str_int (YearlyGainLoss.year s)
              @ '' '' @ term_classification s
              @ '' '' @ example_type_value (YearlyGainLoss.transaction_type s))
        two_years_yearly
       = [''BTC 2021 SHORT sell'', ''BTC 2021 SHORT earn'', ''BTC 2021 LONG sell'',
          ''BTC 2020 SHORT sell'']"
    by (simp add: two_years_yearly_def summary_def term_classification_def
        example_type_value_def str_int_def)
  have n: "two_years_yearly ! 0 = summary 2021 (Other ''sell'') False 2 40 40 0"
    "two_years_yearly ! Suc 0 = summary 2021 EARN False 1 20 0 20"
    "two_years_yearly ! 1 = summary 2021 EARN False 1 20 0 20"
    "two_years_yearly ! Suc 1 = summary 2021 (Other ''sell'') True 6 120 60 60"
    "two_years_yearly ! 2 = summary 2021 (Other ''sell'') True 6 120 60 60"
    "two_years_yearly ! Suc 2 = summary 2020 (Other ''sell'') False 4 60 40 20"
    by (simp_all add: two_years_yearly_def)
  have i0: "Suc 0 < length two_years_yearly" and i1: "Suc 1 < length two_years_yearly"
    and i2: "Suc 2 < length two_years_yearly"
    using l by simp_all
  note ev = summary_def term_classification_def example_type_value_def str_int_def
  have c0: "''BTC 2021 SHORT earn'' \<le> ''BTC 2021 SHORT sell''
      \<and> composite_key_ge example_type_value
         (summary 2021 (Other ''sell'') False 2 40 40 0) (summary 2021 EARN False 1 20 0 20)"
    using create_yearly_gain_loss_list_sorted [OF two_years_aggregated i0]
    by (simp only: n) (simp add: ev)
  have c1: "''BTC 2021 LONG sell'' \<le> ''BTC 2021 SHORT earn''
      \<and> composite_key_ge example_type_value
         (summary 2021 EARN False 1 20 0 20) (summary 2021 (Other ''sell'') True 6 120 60 60)"
    using create_yearly_gain_loss_list_sorted [OF two_years_aggregated i1]
    by (simp only: n) (simp add: ev)
  have c2: "''BTC 2020 SHORT sell'' \<le> ''BTC 2021 LONG sell''
      \<and> composite_key_ge example_type_value
         (summary 2021 (Other ''sell'') True 6 120 60 60)
         (summary 2020 (Other ''sell'') False 4 60 40 20)"
    using create_yearly_gain_loss_list_sorted [OF two_years_aggregated i2]
    by (simp only: n) (simp add: ev)
  from two_years_aggregated l two_years_unsorted t c0 c1 c2 show ?thesis
    by (simp only:)
qed

section \<open>compute\_tax\<close>




end
